theory Spec2Isabelle
  imports Main "HOL-Library.Sublist" "HOL-Library.Word"
begin

section \<open>The pipeline controller of FigmaStepsContext.tsx\<close>

text \<open>
  The module is a React context holding one reducer-managed state
  (\<^verbatim>\<open>FigmaStepsState\<close>), four asynchronous stage actions that dispatch into
  the reducer, and two string helpers that splice generated and user-written
  code.  The reducer and the helpers are pure and are embedded as HOL
  functions; the stage actions are embedded as functions from the state
  snapshot they close over and the outcomes of their collaborator calls to
  the sequence of reducer actions they dispatch.

  JavaScript strings are modelled as \<^typ>\<open>string\<close>; one \<^typ>\<open>char\<close> stands for one
  code unit below 256.
\<close>

subsection \<open>Data model (source lines 8--59)\<close>

text \<open>
  \<^verbatim>\<open>figmaData\<close> has type \<^verbatim>\<open>any\<close> in the source.  The only object the module
  itself ever stores there is the \<^verbatim>\<open>completeData\<close> bundle built by
  \<^verbatim>\<open>connectToFigma\<close> (lines 256--263), and the only parts of it the module
  reads are \<^verbatim>\<open>file?.name\<close>, \<^verbatim>\<open>metadata?.componentCount\<close> and
  \<^verbatim>\<open>metadata?.styleCount\<close>.  The remaining contents come from the remote
  service and are kept as opaque text.  \<^verbatim>\<open>null\<close>/\<^verbatim>\<open>undefined\<close> is \<^term>\<open>None\<close>.

  The two counts are non-negative integers that a JavaScript number holds
  exactly, that is, integers below \<open>2\<^sup>5\<^sup>3\<close>; the type \<^typ>\<open>53 word\<close> has
  exactly these values.
\<close>

record FigmaFile =
  name :: "string option"
  document :: string

record FileMetadata =
  componentCount :: "53 word option"
  styleCount :: "53 word option"

record CompleteData =
  figmaFile :: "FigmaFile option"
  metadata :: "FileMetadata option"
  components :: string
  styles :: string
  fileId :: string
  extractedAt :: string

record StepData =
  figmaUrl :: string
  accessToken :: string
  figmaData :: "CompleteData option"
  svgCode :: string
  generatedTsxCode :: string
  cssCode :: string
  jsxCode :: string
  moreCssCode :: string
  finalTsxCode :: string
  finalCssCode :: string

datatype status = Idle | Loading | Success | Error

record StepStatus =
  step1 :: status
  step2 :: status
  step3 :: status
  step4 :: status

record ExpandedBlocks =
  block1 :: bool
  block2 :: bool
  block3 :: bool
  block4 :: bool

record Progress =
  current :: nat
  total_steps :: nat
  message :: string

record UIState =
  expandedBlocks :: ExpandedBlocks
  previewMode :: bool
  errors :: "string \<rightharpoonup> string"
  progress :: Progress

record FigmaStepsState =
  stepData :: StepData
  stepStatus :: StepStatus
  uiState :: UIState

text \<open>
  \<^verbatim>\<open>Partial<T>\<close>: every field may be absent.  A field that is present
  carries \<^term>\<open>Some v\<close>.
\<close>

record PartialStepData =
  p_figmaUrl :: "string option"
  p_accessToken :: "string option"
  p_figmaData :: "CompleteData option option"
  p_svgCode :: "string option"
  p_generatedTsxCode :: "string option"
  p_cssCode :: "string option"
  p_jsxCode :: "string option"
  p_moreCssCode :: "string option"
  p_finalTsxCode :: "string option"
  p_finalCssCode :: "string option"

record PartialStepStatus =
  p_step1 :: "status option"
  p_step2 :: "status option"
  p_step3 :: "status option"
  p_step4 :: "status option"

record PartialUIState =
  p_expandedBlocks :: "ExpandedBlocks option"
  p_previewMode :: "bool option"
  p_errors :: "(string \<rightharpoonup> string) option"
  p_progress :: "Progress option"

record PartialProgress =
  p_current :: "nat option"
  p_total :: "nat option"
  p_message :: "string option"

datatype blockKey = Block1 | Block2 | Block3 | Block4

datatype FigmaStepsAction =
    SET_STEP_DATA PartialStepData
  | SET_STEP_STATUS PartialStepStatus
  | SET_UI_STATE PartialUIState
  | SET_ERROR string string
  | CLEAR_ERRORS
  | TOGGLE_BLOCK blockKey
  | SET_PROGRESS PartialProgress
  | RESET_ALL

subsection \<open>Initial state (source lines 62--96)\<close>

definition initialState :: FigmaStepsState where
  "initialState =
     \<lparr> stepData =
         \<lparr> figmaUrl = ''https://www.figma.com/design/...'',
           accessToken = '''',
           figmaData = None,
           svgCode = '''',
           generatedTsxCode = '''',
           cssCode = '''',
           jsxCode = '''',
           moreCssCode = '''',
           finalTsxCode = '''',
           finalCssCode = '''' \<rparr>,
       stepStatus = \<lparr> step1 = Idle, step2 = Idle, step3 = Idle, step4 = Idle \<rparr>,
       uiState =
         \<lparr> expandedBlocks =
             \<lparr> block1 = False, block2 = False, block3 = False, block4 = False \<rparr>,
           previewMode = False,
           errors = Map.empty,
           progress = \<lparr> current = 0, total_steps = 4, message = '''' \<rparr> \<rparr> \<rparr>"

subsection \<open>Reducer (source lines 99--161)\<close>

text \<open>Object spread \<^verbatim>\<open>{ ...old, ...payload }\<close>: a present field wins.\<close>

definition over :: "'a \<Rightarrow> 'a option \<Rightarrow> 'a" where
  "over old new = (case new of None \<Rightarrow> old | Some v \<Rightarrow> v)"

definition mergeStepData :: "StepData \<Rightarrow> PartialStepData \<Rightarrow> StepData" where
  "mergeStepData d p =
     \<lparr> figmaUrl = over (figmaUrl d) (p_figmaUrl p),
       accessToken = over (accessToken d) (p_accessToken p),
       figmaData = over (figmaData d) (p_figmaData p),
       svgCode = over (svgCode d) (p_svgCode p),
       generatedTsxCode = over (generatedTsxCode d) (p_generatedTsxCode p),
       cssCode = over (cssCode d) (p_cssCode p),
       jsxCode = over (jsxCode d) (p_jsxCode p),
       moreCssCode = over (moreCssCode d) (p_moreCssCode p),
       finalTsxCode = over (finalTsxCode d) (p_finalTsxCode p),
       finalCssCode = over (finalCssCode d) (p_finalCssCode p) \<rparr>"

definition mergeStepStatus :: "StepStatus \<Rightarrow> PartialStepStatus \<Rightarrow> StepStatus" where
  "mergeStepStatus t p =
     \<lparr> step1 = over (step1 t) (p_step1 p),
       step2 = over (step2 t) (p_step2 p),
       step3 = over (step3 t) (p_step3 p),
       step4 = over (step4 t) (p_step4 p) \<rparr>"

definition mergeUIState :: "UIState \<Rightarrow> PartialUIState \<Rightarrow> UIState" where
  "mergeUIState u p =
     \<lparr> expandedBlocks = over (expandedBlocks u) (p_expandedBlocks p),
       previewMode = over (previewMode u) (p_previewMode p),
       errors = over (errors u) (p_errors p),
       progress = over (progress u) (p_progress p) \<rparr>"

definition mergeProgress :: "Progress \<Rightarrow> PartialProgress \<Rightarrow> Progress" where
  "mergeProgress g p =
     \<lparr> current = over (current g) (p_current p),
       total_steps = over (total_steps g) (p_total p),
       message = over (message g) (p_message p) \<rparr>"

text \<open>
  \<^verbatim>\<open>{ ...blocks, [key]: !blocks[key] }\<close> of the \<^verbatim>\<open>TOGGLE_BLOCK\<close> case.
\<close>

fun toggle :: "ExpandedBlocks \<Rightarrow> blockKey \<Rightarrow> ExpandedBlocks" where
  "toggle b Block1 = b\<lparr>block1 := \<not> block1 b\<rparr>"
| "toggle b Block2 = b\<lparr>block2 := \<not> block2 b\<rparr>"
| "toggle b Block3 = b\<lparr>block3 := \<not> block3 b\<rparr>"
| "toggle b Block4 = b\<lparr>block4 := \<not> block4 b\<rparr>"

fun getBlock :: "ExpandedBlocks \<Rightarrow> blockKey \<Rightarrow> bool" where
  "getBlock b Block1 = block1 b"
| "getBlock b Block2 = block2 b"
| "getBlock b Block3 = block3 b"
| "getBlock b Block4 = block4 b"

fun figmaStepsReducer :: "FigmaStepsState \<Rightarrow> FigmaStepsAction \<Rightarrow> FigmaStepsState" where
  "figmaStepsReducer state (SET_STEP_DATA payload) =
     state\<lparr>stepData := mergeStepData (stepData state) payload\<rparr>"
| "figmaStepsReducer state (SET_STEP_STATUS payload) =
     state\<lparr>stepStatus := mergeStepStatus (stepStatus state) payload\<rparr>"
| "figmaStepsReducer state (SET_UI_STATE payload) =
     state\<lparr>uiState := mergeUIState (uiState state) payload\<rparr>"
| "figmaStepsReducer state (SET_ERROR step err) =
     state\<lparr>uiState := (uiState state)\<lparr>errors := (errors (uiState state))(step \<mapsto> err)\<rparr>\<rparr>"
| "figmaStepsReducer state CLEAR_ERRORS =
     state\<lparr>uiState := (uiState state)\<lparr>errors := Map.empty\<rparr>\<rparr>"
| "figmaStepsReducer state (TOGGLE_BLOCK key) =
     state\<lparr>uiState := (uiState state)
        \<lparr>expandedBlocks := toggle (expandedBlocks (uiState state)) key\<rparr>\<rparr>"
| "figmaStepsReducer state (SET_PROGRESS payload) =
     state\<lparr>uiState := (uiState state)
        \<lparr>progress := mergeProgress (progress (uiState state)) payload\<rparr>\<rparr>"
| "figmaStepsReducer state RESET_ALL = initialState"

subsection \<open>JavaScript string primitives used by the module\<close>

text \<open>
  \<^verbatim>\<open>String.prototype.trim\<close> and the regular-expression class \<^verbatim>\<open>\s\<close> use the
  same set of code units: tab, line feed, vertical tab, form feed, carriage
  return, space, no-break space (and code units above 255, which the model's
  alphabet does not have).
\<close>

definition isWhiteSpace :: "char \<Rightarrow> bool" where
  "isWhiteSpace c \<longleftrightarrow>
     c \<in> {CHR 0x09, CHR 0x0A, CHR 0x0B, CHR 0x0C, CHR 0x0D, CHR 0x20, CHR 0xA0}"

definition trim :: "string \<Rightarrow> string" where
  "trim s = rev (dropWhile isWhiteSpace (rev (dropWhile isWhiteSpace s)))"

definition startsWith :: "string \<Rightarrow> string \<Rightarrow> bool" where
  "startsWith s p \<longleftrightarrow> prefix p s"

text \<open>\<^verbatim>\<open>s.includes(p)\<close>: \<open>p\<close> occurs in \<open>s\<close> at some position.\<close>

fun includes_str :: "string \<Rightarrow> string \<Rightarrow> bool" where
  "includes_str [] p = (p = [])"
| "includes_str (c # s) p = (prefix p (c # s) \<or> includes_str s p)"

text \<open>\<^verbatim>\<open>s.indexOf(p)\<close>; the result \<^verbatim>\<open>-1\<close> is \<^term>\<open>None\<close>.\<close>

fun indexOf :: "string \<Rightarrow> string \<Rightarrow> nat option" where
  "indexOf [] p = (if p = [] then Some 0 else None)"
| "indexOf (c # s) p =
     (if prefix p (c # s) then Some 0 else map_option Suc (indexOf s p))"

text \<open>
  \<^verbatim>\<open>GetSubstitution(matched, str, position, captures, namedCaptures, replacement)\<close>
  of ECMA-262 for a string pattern, where there are no captures: in the
  replacement text \<^verbatim>\<open>$$\<close> stands for one dollar sign, \<^verbatim>\<open>$&\<close> for the
  matched text, \<^verbatim>\<open>$`\<close> for the part of \<open>str\<close> before the match and \<^verbatim>\<open>$'\<close> for
  the part after it.  A dollar sign followed by a digit or by \<^verbatim>\<open><\<close> is
  copied as it is when there is no capture to refer to, as is every other
  character.
\<close>

fun getSubstitution :: "string \<Rightarrow> string \<Rightarrow> nat \<Rightarrow> string \<Rightarrow> string" where
  "getSubstitution matched str position [] = []"
| "getSubstitution matched str position [c] = [c]"
| "getSubstitution matched str position (c # d # r) =
     (if c = CHR ''$'' \<and> d = CHR ''$'' then
        CHR ''$'' # getSubstitution matched str position r
      else if c = CHR ''$'' \<and> d = CHR ''&'' then
        matched @ getSubstitution matched str position r
      else if c = CHR ''$'' \<and> d = CHR 0x60 then
        take position str @ getSubstitution matched str position r
      else if c = CHR ''$'' \<and> d = CHR 0x27 then
        drop (position + length matched) str @ getSubstitution matched str position r
      else c # getSubstitution matched str position (d # r))"

text \<open>
  \<^verbatim>\<open>s.replace(pattern, replacement)\<close> with a string pattern and a string
  replacement: only the first occurrence of the pattern is replaced, and the
  replacement text is expanded by \<^const>\<open>getSubstitution\<close>.
\<close>

definition replace :: "string \<Rightarrow> string \<Rightarrow> string \<Rightarrow> string" where
  "replace s pattern replacement =
     (case indexOf s pattern of
        None \<Rightarrow> s
      | Some position \<Rightarrow>
          take position s
          @ getSubstitution pattern s position replacement
          @ drop (position + length pattern) s)"

text \<open>
  A template literal renders a number by \<^verbatim>\<open>Number::toString\<close>.  For an
  integer below \<open>10\<^sup>2\<^sup>1\<close> that is its decimal digits without an exponent;
  every count of the model is below \<open>2\<^sup>5\<^sup>3\<close> and so in that range.
\<close>

definition digitChar :: "nat \<Rightarrow> char" where
  "digitChar d = char_of (48 + d)"

fun decimalDigits :: "nat \<Rightarrow> string" where
  "decimalDigits n =
     (if n < 10 then [digitChar n] else decimalDigits (n div 10) @ [digitChar (n mod 10)])"

declare decimalDigits.simps [simp del]

definition showCount :: "53 word \<Rightarrow> string" where
  "showCount w = decimalDigits (unat w)"

subsection \<open>The match of \<^verbatim>\<open>/return\s*\(\s*([\s\S]*?)\s*\);/\<close> (source line 499)\<close>

text \<open>
  \<^verbatim>\<open>\s*\);\<close> at the head of \<open>s\<close>: the greedy \<^verbatim>\<open>\s*\<close> takes every white-space
  character, and giving some of them back cannot help, because the next
  character has to be the closing parenthesis.  The result is what follows
  the match.
\<close>

definition matchClose :: "string \<Rightarrow> string option" where
  "matchClose s =
     (case dropWhile isWhiteSpace s of
        c # d # r \<Rightarrow> if c = CHR '')'' \<and> d = CHR '';'' then Some r else None
      | _ \<Rightarrow> None)"

text \<open>
  \<^verbatim>\<open>([\s\S]*?)\s*\);\<close>: the lazy group first tries to be empty and grows by
  one character each time the rest of the pattern fails.  The result is the
  captured text and what follows the match.
\<close>

fun matchLazy :: "string \<Rightarrow> (string \<times> string) option" where
  "matchLazy [] = map_option (\<lambda>r. ([], r)) (matchClose [])"
| "matchLazy (c # s) =
     (case matchClose (c # s) of
        Some r \<Rightarrow> Some ([], r)
      | None \<Rightarrow> map_option (\<lambda>(cap, r). (c # cap, r)) (matchLazy s))"

text \<open>
  The whole pattern at the head of \<open>s\<close>.  After \<^verbatim>\<open>return\<close> the first
  \<^verbatim>\<open>\s*\<close> must stop at the opening parenthesis; the second \<^verbatim>\<open>\s*\<close> takes every
  white-space character that follows it (a shorter choice is tried by the
  engine only after this one has failed, and then fails as well, since a
  match needs the text \<^verbatim>\<open>);\<close> further right).
\<close>

definition matchHere :: "string \<Rightarrow> (string \<times> string) option" where
  "matchHere s =
     (if startsWith s ''return'' then
        (case dropWhile isWhiteSpace (drop 6 s) of
           c # r \<Rightarrow> if c = CHR ''('' then matchLazy (dropWhile isWhiteSpace r) else None
         | [] \<Rightarrow> None)
      else None)"

text \<open>
  \<^verbatim>\<open>finalCode.match(re)\<close> without the \<^verbatim>\<open>g\<close> flag: the match at the leftmost
  position where the pattern matches.  The result holds the index of the
  match, \<^verbatim>\<open>returnMatch[0]\<close> (the matched text) and \<^verbatim>\<open>returnMatch[1]\<close> (the
  capture); \<^verbatim>\<open>null\<close> is \<^term>\<open>None\<close>.
\<close>

fun matchReturn :: "string \<Rightarrow> (nat \<times> string \<times> string) option" where
  "matchReturn [] = None"
| "matchReturn (c # s) =
     (case matchHere (c # s) of
        Some (cap, rest) \<Rightarrow> Some (0, take (length (c # s) - length rest) (c # s), cap)
      | None \<Rightarrow> map_option (\<lambda>(i, m, cap). (Suc i, m, cap)) (matchReturn s))"

text \<open>
  The regular expression read as a set of strings, for comparison with the
  matcher above: \<^verbatim>\<open>return\<close>, white space, an opening parenthesis, white
  space, the captured text, white space, and \<^verbatim>\<open>);\<close>.
\<close>

definition allWhiteSpace :: "string \<Rightarrow> bool" where
  "allWhiteSpace w \<longleftrightarrow> list_all isWhiteSpace w"

definition inReturnRegex :: "string \<Rightarrow> string \<Rightarrow> bool" where
  "inReturnRegex m cap \<longleftrightarrow>
     (\<exists>w1 w2 w3. allWhiteSpace w1 \<and> allWhiteSpace w2 \<and> allWhiteSpace w3
        \<and> m = ''return'' @ w1 @ ''('' @ w2 @ cap @ w3 @ '');'')"

text \<open>Some part of \<open>s\<close> is matched by the regular expression.\<close>

definition hasReturnPattern :: "string \<Rightarrow> bool" where
  "hasReturnPattern s \<longleftrightarrow> (\<exists>pre m cap post. s = pre @ m @ post \<and> inReturnRegex m cap)"

subsection \<open>Artifact combiner (source lines 493--581)\<close>

text \<open>
  \<^verbatim>\<open>new Date().toISOString()\<close> is read from the environment; the text it
  returns is the parameter \<open>now\<close>.
\<close>

text \<open>\<^verbatim>\<open>figmaData.file?.name || 'Unknown'\<close>\<close>

definition fileNameOf :: "CompleteData \<Rightarrow> string" where
  "fileNameOf fd =
     (case figmaFile fd of
        None \<Rightarrow> ''Unknown''
      | Some f \<Rightarrow> (case name f of None \<Rightarrow> ''Unknown'' | Some n \<Rightarrow> if n = [] then ''Unknown'' else n))"

text \<open>\<^verbatim>\<open>figmaData.metadata?.componentCount || 0\<close> and the same for \<^verbatim>\<open>styleCount\<close>\<close>

definition componentCountOf :: "CompleteData \<Rightarrow> 53 word" where
  "componentCountOf fd =
     (case metadata fd of
        None \<Rightarrow> 0
      | Some m \<Rightarrow> (case componentCount m of None \<Rightarrow> 0 | Some n \<Rightarrow> n))"

definition styleCountOf :: "CompleteData \<Rightarrow> 53 word" where
  "styleCountOf fd =
     (case metadata fd of
        None \<Rightarrow> 0
      | Some m \<Rightarrow> (case styleCount m of None \<Rightarrow> 0 | Some n \<Rightarrow> n))"

text \<open>The comment block of lines 522--530.\<close>

definition tsxMetadata :: "CompleteData \<Rightarrow> string \<Rightarrow> string" where
  "tsxMetadata fd now =
     ''/*\<newline> * Generated from Figma Design\<newline> * File: '' @ fileNameOf fd
     @ ''\<newline> * Generated: '' @ now
     @ ''\<newline> * Components: '' @ showCount (componentCountOf fd)
     @ ''\<newline> * Styles: '' @ showCount (styleCountOf fd)
     @ ''\<newline> */\<newline>\<newline>''"

text \<open>The two replacement texts of lines 505--511 and 514--515.\<close>

definition fragmentReturn :: "string \<Rightarrow> string \<Rightarrow> string" where
  "fragmentReturn originalJsx manualJsx =
     ''return ('' @
       (''\<newline>    <React.Fragment>\<newline>      '' @ originalJsx
        @ ''\<newline>      {/* Additional JSX */}\<newline>      '' @ manualJsx
        @ ''\<newline>    </React.Fragment>'')
     @ ''\<newline>  );''"

definition siblingReturn :: "string \<Rightarrow> string \<Rightarrow> string" where
  "siblingReturn originalJsx manualJsx =
     ''return (\<newline>    '' @
       (originalJsx @ ''\<newline>      {/* Additional JSX */}\<newline>      '' @ manualJsx)
     @ ''\<newline>  );''"

definition combineCodePieces :: "string \<Rightarrow> string \<Rightarrow> CompleteData option \<Rightarrow> string \<Rightarrow> string" where
  "combineCodePieces generatedTsx manualJsx fData now =
     (let finalCode =
        (if trim manualJsx \<noteq> [] then
           (case matchReturn generatedTsx of
              None \<Rightarrow> generatedTsx
            | Some (i, whole, cap) \<Rightarrow>
                (let originalJsx = trim cap in
                 if startsWith originalJsx ''<svg''
                 then replace generatedTsx whole (fragmentReturn originalJsx manualJsx)
                 else replace generatedTsx whole (siblingReturn originalJsx manualJsx)))
         else generatedTsx)
      in (case fData of
            None \<Rightarrow> finalCode
          | Some fd \<Rightarrow> tsxMetadata fd now @ finalCode))"

text \<open>The pieces of \<^verbatim>\<open>combineCssCode\<close> (lines 542--547, 552--555, 560--563, 567--578).\<close>

definition cssHeader :: "CompleteData \<Rightarrow> string \<Rightarrow> string" where
  "cssHeader fd now =
     ''/*\<newline> * Styles for Figma Component: '' @ fileNameOf fd
     @ ''\<newline> * Generated: '' @ now
     @ ''\<newline> */\<newline>\<newline>''"

definition baseStylesHeader :: string where
  "baseStylesHeader = ''/* Base Styles */''"

definition additionalStylesHeader :: string where
  "additionalStylesHeader = ''/* Additional Styles */''"

definition responsiveUtilities :: string where
  "responsiveUtilities =
     ''/* Responsive Utilities */\<newline>@media (max-width: 768px) {\<newline>  .figma-component {\<newline>    padding: 1rem;\<newline>  }\<newline>}\<newline>\<newline>@media (max-width: 480px) {\<newline>  .figma-component {\<newline>    padding: 0.5rem;\<newline>  }\<newline>}''"

definition combineCssCode :: "string \<Rightarrow> string \<Rightarrow> CompleteData option \<Rightarrow> string \<Rightarrow> string" where
  "combineCssCode baseCss additionalCss fData now =
     (let finalCss0 = [];
          finalCss1 = (case fData of None \<Rightarrow> finalCss0 | Some fd \<Rightarrow> finalCss0 @ cssHeader fd now);
          finalCss2 = (if trim baseCss \<noteq> []
                       then finalCss1 @ baseStylesHeader @ ''\<newline>'' @ baseCss @ ''\<newline>\<newline>''
                       else finalCss1);
          finalCss3 = (if trim additionalCss \<noteq> []
                       then finalCss2 @ additionalStylesHeader @ ''\<newline>'' @ additionalCss @ ''\<newline>\<newline>''
                       else finalCss2)
      in finalCss3 @ responsiveUtilities)"

subsection \<open>Collaborators and the environment of the stage actions\<close>

text \<open>
  The stage actions call three services that are not part of this module
  (\<^verbatim>\<open>figmaApiService\<close>, \<^verbatim>\<open>enhancedCodeGenerationEngine\<close>, \<^verbatim>\<open>transformer\<close>).
  Each call either returns a value or throws; what it does is a parameter of
  the model.  A thrown value is an \<^verbatim>\<open>Error\<close> object with its message, or
  something that is not an \<^verbatim>\<open>Error\<close> instance.
\<close>

datatype thrown = JsError string | NonError

record Validation =
  valid :: bool
  v_fileId :: "string option"
  v_error :: "string option"

text \<open>
  \<^verbatim>\<open>generateCode\<close> receives a progress callback; the model takes the list of
  status texts it passes to the callback before it returns or throws.  The
  option objects passed to \<^verbatim>\<open>transformer\<close> and \<^verbatim>\<open>generateCode\<close> are constants
  of the source and are not arguments here.
\<close>

record Collaborators =
  validateFigmaUrl :: "string \<Rightarrow> thrown + Validation"
  fetchFigmaFile :: "string \<Rightarrow> string \<Rightarrow> thrown + FigmaFile option"
  getFileMetadata :: "string \<Rightarrow> string \<Rightarrow> thrown + FileMetadata option"
  getFileComponents :: "string \<Rightarrow> string \<Rightarrow> thrown + string"
  getFileStyles :: "string \<Rightarrow> string \<Rightarrow> thrown + string"
  extractSVGFromFigma :: "FigmaFile option \<Rightarrow> thrown + string"
  transformer :: "string \<Rightarrow> thrown + string"
  generateCode :: "FigmaFile option \<Rightarrow> string list \<times> (thrown + string)"

text \<open>
  What an execution of a stage action does is recorded as a list of events:
  the reducer actions it dispatches, in order, and the entries into the
  module's own stage functions.
\<close>

datatype invocation =
    ConnectToFigma
  | AutoGenerateSvg CompleteData string
  | GenerateSvgCode "string option"
  | SaveCssCode
  | GenerateFinalCode

datatype event = Dispatch FigmaStepsAction | Invoke invocation

fun applyEvent :: "FigmaStepsState \<Rightarrow> event \<Rightarrow> FigmaStepsState" where
  "applyEvent s (Dispatch a) = figmaStepsReducer s a"
| "applyEvent s (Invoke i) = s"

definition run :: "FigmaStepsState \<Rightarrow> event list \<Rightarrow> FigmaStepsState" where
  "run s evs = foldl applyEvent s evs"

subsection \<open>Basic actions (source lines 192--222)\<close>

text \<open>The empty object literal \<^verbatim>\<open>{}\<close> at each of the partial types.\<close>

definition noStepData :: PartialStepData where
  "noStepData =
     \<lparr> p_figmaUrl = None, p_accessToken = None, p_figmaData = None, p_svgCode = None,
       p_generatedTsxCode = None, p_cssCode = None, p_jsxCode = None, p_moreCssCode = None,
       p_finalTsxCode = None, p_finalCssCode = None \<rparr>"

definition noStepStatus :: PartialStepStatus where
  "noStepStatus = \<lparr> p_step1 = None, p_step2 = None, p_step3 = None, p_step4 = None \<rparr>"

definition noUIState :: PartialUIState where
  "noUIState =
     \<lparr> p_expandedBlocks = None, p_previewMode = None, p_errors = None, p_progress = None \<rparr>"

definition noProgress :: PartialProgress where
  "noProgress = \<lparr> p_current = None, p_total = None, p_message = None \<rparr>"

definition setStepData :: "PartialStepData \<Rightarrow> event" where
  "setStepData data = Dispatch (SET_STEP_DATA data)"

definition setStepStatus :: "PartialStepStatus \<Rightarrow> event" where
  "setStepStatus st = Dispatch (SET_STEP_STATUS st)"

definition setUIState :: "PartialUIState \<Rightarrow> event" where
  "setUIState u = Dispatch (SET_UI_STATE u)"

definition setError :: "string \<Rightarrow> string \<Rightarrow> event" where
  "setError step err = Dispatch (SET_ERROR step err)"

definition clearErrors :: event where
  "clearErrors = Dispatch CLEAR_ERRORS"

definition toggleBlock :: "blockKey \<Rightarrow> event" where
  "toggleBlock b = Dispatch (TOGGLE_BLOCK b)"

definition setProgress :: "PartialProgress \<Rightarrow> event" where
  "setProgress p = Dispatch (SET_PROGRESS p)"

definition resetAll :: event where
  "resetAll = Dispatch RESET_ALL"

text \<open>\<^verbatim>\<open>setProgress({ message: m })\<close> and \<^verbatim>\<open>setProgress({ current: n, message: m })\<close>\<close>

definition progressMessage :: "string \<Rightarrow> event" where
  "progressMessage m = setProgress (noProgress\<lparr>p_message := Some m\<rparr>)"

definition progressAt :: "nat \<Rightarrow> string \<Rightarrow> event" where
  "progressAt n m = setProgress (noProgress\<lparr>p_current := Some n, p_message := Some m\<rparr>)"

text \<open>\<^verbatim>\<open>x || d\<close> on a string that may be undefined: the empty string is falsy.\<close>

definition truthy :: "string option \<Rightarrow> string option" where
  "truthy x = (case x of None \<Rightarrow> None | Some v \<Rightarrow> if v = [] then None else Some v)"

subsection \<open>Stage 2: \<^verbatim>\<open>generateSvgCode\<close> (source lines 319--374)\<close>

text \<open>The \<^verbatim>\<open>catch\<close> block, lines 355--373.\<close>

definition svgErrorMessage :: "thrown \<Rightarrow> string" where
  "svgErrorMessage t =
     (case t of
        NonError \<Rightarrow> ''SVG conversion failed''
      | JsError m \<Rightarrow>
          if includes_str m ''Invalid SVG'' then
            m @ ''. Please ensure your input contains valid SVG elements like <svg>, <path>, <rect>, etc.''
          else if includes_str m ''parsing'' then
            ''SVG parsing failed. Please check your SVG syntax and try again.''
          else m)"

definition generateSvgCatch :: "thrown \<Rightarrow> event list" where
  "generateSvgCatch t =
     [ setError ''step2'' (svgErrorMessage t),
       setStepStatus (noStepStatus\<lparr>p_step2 := Some Error\<rparr>),
       progressMessage ''SVG conversion failed'' ]"

text \<open>
  The \<^verbatim>\<open>try\<close> block, lines 331--353: the events dispatched, and the value
  thrown if the block does not run to its end.
\<close>

definition generateSvgTry :: "Collaborators \<Rightarrow> string \<Rightarrow> event list \<times> thrown option" where
  "generateSvgTry c svg =
     (if \<not> includes_str svg ''<svg'' \<and> \<not> includes_str svg ''<path''
         \<and> \<not> includes_str svg ''<rect'' \<and> \<not> includes_str svg ''<circle''
      then ([], Some (JsError ''Invalid SVG: No SVG elements found in the provided code''))
      else
        (case transformer c svg of
           Inl t \<Rightarrow> ([progressMessage ''Parsing SVG structure...''], Some t)
         | Inr tsxCode \<Rightarrow>
             ([ progressMessage ''Parsing SVG structure...'',
                setStepData (noStepData\<lparr>p_svgCode := Some svg, p_generatedTsxCode := Some tsxCode\<rparr>),
                setStepStatus (noStepStatus\<lparr>p_step2 := Some Success\<rparr>),
                progressMessage ''TSX code generated successfully!'' ], None)))"

text \<open>
  \<open>state\<close> is the state of the render whose closure is called;
  \<open>svgContent\<close> is the optional argument.
\<close>

definition generateSvgCode :: "Collaborators \<Rightarrow> FigmaStepsState \<Rightarrow> string option \<Rightarrow> event list" where
  "generateSvgCode c state svgContent =
     Invoke (GenerateSvgCode svgContent) #
     (let svg = (case truthy svgContent of Some v \<Rightarrow> v | None \<Rightarrow> svgCode (stepData state)) in
      if trim svg = [] then [setError ''step2'' ''Please provide SVG code'']
      else
        [ setStepStatus (noStepStatus\<lparr>p_step2 := Some Loading\<rparr>),
          clearErrors,
          progressAt 2 ''Converting SVG to TSX...'' ]
        @ (case generateSvgTry c svg of
             (evs, None) \<Rightarrow> evs
           | (evs, Some t) \<Rightarrow> evs @ generateSvgCatch t))"

subsection \<open>The automatic stage 2: \<^verbatim>\<open>autoGenerateSvg\<close> (source lines 297--317)\<close>

text \<open>
  The dependency list of this callback does not name \<^verbatim>\<open>generateSvgCode\<close>, so
  the \<^verbatim>\<open>generateSvgCode\<close> it calls can be the closure of an earlier render.
  The state that closure sees is the parameter \<open>stateG\<close>; nothing is assumed
  about it.
\<close>

definition autoGenerateSvg ::
  "Collaborators \<Rightarrow> FigmaStepsState \<Rightarrow> CompleteData \<Rightarrow> string \<Rightarrow> event list" where
  "autoGenerateSvg c stateG fData fId =
     Invoke (AutoGenerateSvg fData fId) #
     setStepStatus (noStepStatus\<lparr>p_step2 := Some Loading\<rparr>) #
     progressAt 2 ''Extracting SVG from Figma...'' #
     (case extractSVGFromFigma c (figmaFile fData) of
        Inr svgContent \<Rightarrow>
          setStepData (noStepData\<lparr>p_svgCode := Some svgContent\<rparr>) #
          progressMessage ''Converting SVG to TSX...'' #
          generateSvgCode c stateG (Some svgContent)
      | Inl t \<Rightarrow>
          [ setError ''step2'' (case t of JsError m \<Rightarrow> m | NonError \<Rightarrow> ''SVG generation failed''),
            setStepStatus (noStepStatus\<lparr>p_step2 := Some Error\<rparr>),
            progressMessage ''SVG generation failed'' ])"

subsection \<open>Stage 1: \<^verbatim>\<open>connectToFigma\<close> (source lines 225--295)\<close>

definition accessDeniedMessage :: string where
  "accessDeniedMessage = ''Access denied. This Figma file requires authentication. Please provide a valid Figma Personal Access Token. You can generate one from your Figma account settings under \"Personal access tokens\".''"

definition notFoundMessage :: string where
  "notFoundMessage = ''Figma file not found. Please check if the file exists and the URL is correct.''"

definition invalidTokenMessage :: string where
  "invalidTokenMessage = ''Invalid or expired access token. Please check your Figma Personal Access Token and try again.''"

definition rateLimitMessage :: string where
  "rateLimitMessage = ''Rate limit exceeded. Please wait a moment and try again.''"

text \<open>The message computed in the \<^verbatim>\<open>catch\<close> block, lines 274--289.\<close>

definition connectErrorMessage :: "thrown \<Rightarrow> string" where
  "connectErrorMessage t =
     (case t of
        NonError \<Rightarrow> ''Connection failed''
      | JsError m \<Rightarrow>
          if includes_str m ''Access denied'' \<or> includes_str m ''403'' then accessDeniedMessage
          else if includes_str m ''404'' then notFoundMessage
          else if includes_str m ''401'' then invalidTokenMessage
          else if includes_str m ''429'' then rateLimitMessage
          else m)"

definition connectCatch :: "thrown \<Rightarrow> event list" where
  "connectCatch t =
     [ setError ''step1'' (connectErrorMessage t),
       setStepStatus (noStepStatus\<lparr>p_step1 := Some Error\<rparr>),
       progressMessage ''Connection failed'' ]"

text \<open>
  The \<^verbatim>\<open>try\<close> block, lines 237--270.  \<open>now\<close> is the text of
  \<^verbatim>\<open>new Date().toISOString()\<close> at line 262.
\<close>

definition connectTry ::
  "Collaborators \<Rightarrow> string \<Rightarrow> FigmaStepsState \<Rightarrow> string \<Rightarrow> string \<Rightarrow> event list \<times> thrown option" where
  "connectTry c now stateG url token =
     (case validateFigmaUrl c url of
        Inl t \<Rightarrow> ([], Some t)
      | Inr validation \<Rightarrow>
          (case (if valid validation then truthy (v_fileId validation) else None) of
             None \<Rightarrow>
               ([], Some (JsError (case truthy (v_error validation) of
                                     Some e \<Rightarrow> e
                                   | None \<Rightarrow> ''Invalid Figma URL'')))
           | Some fId \<Rightarrow>
               (case fetchFigmaFile c fId token of
                  Inl t \<Rightarrow> ([progressMessage ''Fetching Figma file data...''], Some t)
                | Inr fFile \<Rightarrow>
                    (let before =
                       [ progressMessage ''Fetching Figma file data...'',
                         progressMessage ''Getting metadata...'' ] in
                     case getFileMetadata c fId token of
                       Inl t \<Rightarrow> (before, Some t)
                     | Inr mdata \<Rightarrow>
                         (case getFileComponents c fId token of
                            Inl t \<Rightarrow> (before, Some t)
                          | Inr comps \<Rightarrow>
                              (case getFileStyles c fId token of
                                 Inl t \<Rightarrow> (before, Some t)
                               | Inr stys \<Rightarrow>
                                   (let completeData =
                                      \<lparr> figmaFile = fFile, metadata = mdata,
                                        components = comps, styles = stys,
                                        fileId = fId, extractedAt = now \<rparr> in
                                    (before
                                     @ [ setStepData (noStepData\<lparr>p_figmaData := Some (Some completeData)\<rparr>),
                                         setStepStatus (noStepStatus\<lparr>p_step1 := Some Success\<rparr>),
                                         progressMessage ''Connection successful!'' ]
                                     @ autoGenerateSvg c stateG completeData fId,
                                     None))))))))"

definition connectToFigma ::
  "Collaborators \<Rightarrow> string \<Rightarrow> FigmaStepsState \<Rightarrow> FigmaStepsState \<Rightarrow> event list" where
  "connectToFigma c now stateG state =
     Invoke ConnectToFigma #
     (let url = figmaUrl (stepData state); token = accessToken (stepData state) in
      if trim url = [] \<or> trim token = [] then
        [setError ''step1'' ''Please provide both Figma URL and Access Token'']
      else
        [ setStepStatus (noStepStatus\<lparr>p_step1 := Some Loading\<rparr>),
          clearErrors,
          progressAt 1 ''Connecting to Figma...'' ]
        @ (case connectTry c now stateG url token of
             (evs, None) \<Rightarrow> evs
           | (evs, Some t) \<Rightarrow> evs @ connectCatch t))"

subsection \<open>Stage 3: \<^verbatim>\<open>saveCssCode\<close> (source lines 376--385)\<close>

definition saveCssCode :: "FigmaStepsState \<Rightarrow> event list" where
  "saveCssCode state =
     Invoke SaveCssCode #
     (if trim (cssCode (stepData state)) = [] then
        [setError ''step3'' ''Please provide CSS code'']
      else
        [ setStepStatus (noStepStatus\<lparr>p_step3 := Some Success\<rparr>),
          clearErrors,
          progressAt 3 ''CSS code saved successfully!'' ])"

subsection \<open>Stage 4: \<^verbatim>\<open>generateFinalCode\<close> (source lines 387--466)\<close>

text \<open>
  \<open>nowTsx\<close> and \<open>nowCss\<close> are the texts of the two timestamps taken inside
  \<^verbatim>\<open>combineCodePieces\<close> and \<^verbatim>\<open>combineCssCode\<close>.
\<close>

definition generateFinalTry ::
  "Collaborators \<Rightarrow> string \<Rightarrow> string \<Rightarrow> FigmaStepsState \<Rightarrow> event list \<times> thrown option" where
  "generateFinalTry c nowTsx nowCss state =
     (case generateCode c (case figmaData (stepData state) of
                             None \<Rightarrow> None
                           | Some fd \<Rightarrow> figmaFile fd) of
        (statuses, result) \<Rightarrow>
          (let before = progressMessage ''Optimizing code...'' # map progressMessage statuses in
           case result of
             Inl t \<Rightarrow> (before, Some t)
           | Inr generatedCode \<Rightarrow>
               (let finalTsx = combineCodePieces (generatedTsxCode (stepData state))
                                 (jsxCode (stepData state)) (figmaData (stepData state)) nowTsx;
                    finalCss = combineCssCode (cssCode (stepData state))
                                 (moreCssCode (stepData state)) (figmaData (stepData state)) nowCss
                in (before
                    @ [ progressMessage ''Combining code pieces...'',
                        setStepData (noStepData\<lparr>p_finalTsxCode := Some finalTsx,
                                                p_finalCssCode := Some finalCss\<rparr>),
                        setStepStatus (noStepStatus\<lparr>p_step4 := Some Success\<rparr>),
                        progressMessage ''Final code generated successfully!'' ],
                    None))))"

definition generateFinalCatch :: "thrown \<Rightarrow> event list" where
  "generateFinalCatch t =
     [ setError ''step4'' (case t of JsError m \<Rightarrow> m | NonError \<Rightarrow> ''Generation failed''),
       setStepStatus (noStepStatus\<lparr>p_step4 := Some Error\<rparr>),
       progressMessage ''Generation failed'' ]"

definition generateFinalCode ::
  "Collaborators \<Rightarrow> string \<Rightarrow> string \<Rightarrow> FigmaStepsState \<Rightarrow> event list" where
  "generateFinalCode c nowTsx nowCss state =
     Invoke GenerateFinalCode #
     (if trim (jsxCode (stepData state)) = [] \<and> trim (moreCssCode (stepData state)) = [] then
        [setError ''step4'' ''Please provide JSX or additional CSS code'']
      else
        [ setStepStatus (noStepStatus\<lparr>p_step4 := Some Loading\<rparr>),
          clearErrors,
          progressAt 4 ''Generating final code...'' ]
        @ (case generateFinalTry c nowTsx nowCss state of
             (evs, None) \<Rightarrow> evs
           | (evs, Some t) \<Rightarrow> evs @ generateFinalCatch t))"

subsection \<open>Sample collaborators and states\<close>

text \<open>
  A remote service that answers every call, and the state reached from the
  initial one when the user has typed a token.  They serve as concrete
  inputs below.
\<close>

definition sampleCollaborators :: Collaborators where
  "sampleCollaborators =
     \<lparr> validateFigmaUrl =
         (\<lambda>url. Inr \<lparr> valid = True, v_fileId = Some ''FILE123'', v_error = None \<rparr>),
       fetchFigmaFile =
         (\<lambda>fId token. Inr (Some \<lparr> name = Some ''Landing'', document = ''{}'' \<rparr>)),
       getFileMetadata =
         (\<lambda>fId token. Inr (Some \<lparr> componentCount = Some 3, styleCount = Some 2 \<rparr>)),
       getFileComponents = (\<lambda>fId token. Inr ''[]''),
       getFileStyles = (\<lambda>fId token. Inr ''[]''),
       extractSVGFromFigma = (\<lambda>f. Inr ''<svg><rect/></svg>''),
       transformer = (\<lambda>svg. Inr ''const C = () => { return (<svg><rect/></svg>); };''),
       generateCode = (\<lambda>f. ([''Analyzing'', ''Done''], Inr ''code'')) \<rparr>"

definition sampleState :: FigmaStepsState where
  "sampleState =
     run initialState [setStepData (noStepData\<lparr>p_accessToken := Some ''figd_token''\<rparr>)]"

text \<open>The same service with a file request that throws an \<^verbatim>\<open>Error\<close>.\<close>

definition failingFetch :: "string \<Rightarrow> Collaborators" where
  "failingFetch msg = sampleCollaborators\<lparr>fetchFigmaFile := (\<lambda>fId token. Inl (JsError msg))\<rparr>"

text \<open>The bundle stage 1 builds from the answers of \<^const>\<open>sampleCollaborators\<close>.\<close>

definition sampleBundle :: CompleteData where
  "sampleBundle =
     \<lparr> figmaFile = Some \<lparr> name = Some ''Landing'', document = ''{}'' \<rparr>,
       metadata = Some \<lparr> componentCount = Some 3, styleCount = Some 2 \<rparr>,
       components = ''[]'', styles = ''[]'', fileId = ''FILE123'',
       extractedAt = ''2024-01-01T00:00:00.000Z'' \<rparr>"




subsection \<open>Observations on event lists and status transitions\<close>

text \<open>Entries into the automatic stage 2, the manual stage 2, and stages 3 and 4.\<close>

fun isAutoStage2 :: "event \<Rightarrow> bool" where
  "isAutoStage2 (Invoke (AutoGenerateSvg b f)) = True"
| "isAutoStage2 e = False"

fun isGenerateSvg :: "event \<Rightarrow> bool" where
  "isGenerateSvg (Invoke (GenerateSvgCode a)) = True"
| "isGenerateSvg e = False"

fun isStage3or4 :: "event \<Rightarrow> bool" where
  "isStage3or4 (Invoke SaveCssCode) = True"
| "isStage3or4 (Invoke GenerateFinalCode) = True"
| "isStage3or4 e = False"

text \<open>A dispatch that writes \<^verbatim>\<open>success\<close> to the status of stage 1.\<close>

fun isStep1Success :: "event \<Rightarrow> bool" where
  "isStep1Success (Dispatch (SET_STEP_STATUS p)) = (p_step1 p = Some Success)"
| "isStep1Success e = False"


text \<open>
  The part of the rule about leaving \<^verbatim>\<open>loading\<close>: \<^verbatim>\<open>success\<close> and \<^verbatim>\<open>error\<close>
  are entered from \<^verbatim>\<open>loading\<close> only; \<^verbatim>\<open>loading\<close> may be entered from anywhere.
\<close>

fun settledMove :: "status \<Rightarrow> status \<Rightarrow> bool" where
  "settledMove a Idle = True"
| "settledMove a Loading = True"
| "settledMove a Success = (a = Success \<or> a = Loading)"
| "settledMove a Error = (a = Error \<or> a = Loading)"

definition allStages :: "(status \<Rightarrow> status \<Rightarrow> bool) \<Rightarrow> StepStatus \<Rightarrow> StepStatus \<Rightarrow> bool" where
  "allStages rule a b \<longleftrightarrow>
     rule (step1 a) (step1 b) \<and> rule (step2 a) (step2 b)
     \<and> rule (step3 a) (step3 b) \<and> rule (step4 a) (step4 b)"



section \<open>Properties of the store\<close>

text \<open>
  C4.  \<^verbatim>\<open>RESET_ALL\<close> applied to any state yields the documented initial state,
  field for field: the placeholder \<^verbatim>\<open>figmaUrl\<close>, every other \<^verbatim>\<open>stepData\<close>
  field empty or null, the four statuses \<^verbatim>\<open>idle\<close>, the four expansion flags
  and \<^verbatim>\<open>previewMode\<close> false, no error entry, and progress
  \<^verbatim>\<open>{current: 0, total: 4, message: ''}\<close>.
\<close>

theorem reset_all_restores_initial:
  "figmaStepsReducer s RESET_ALL =
     \<lparr> stepData =
         \<lparr> figmaUrl = ''https://www.figma.com/design/...'', accessToken = [],
           figmaData = None, svgCode = [], generatedTsxCode = [], cssCode = [],
           jsxCode = [], moreCssCode = [], finalTsxCode = [], finalCssCode = [] \<rparr>,
       stepStatus = \<lparr> step1 = Idle, step2 = Idle, step3 = Idle, step4 = Idle \<rparr>,
       uiState =
         \<lparr> expandedBlocks =
             \<lparr> block1 = False, block2 = False, block3 = False, block4 = False \<rparr>,
           previewMode = False,
           errors = (\<lambda>k. None),
           progress = \<lparr> current = 0, total_steps = 4, message = [] \<rparr> \<rparr> \<rparr>
   \<and> figmaStepsReducer s RESET_ALL = initialState"
  by (simp add: initialState_def)

text \<open>
  C10.  Toggling the same expansion flag twice gives back the state one
  started from, and a single toggle negates the flag named by the key and
  changes nothing else: \<^verbatim>\<open>stepData\<close>, \<^verbatim>\<open>stepStatus\<close>, \<^verbatim>\<open>previewMode\<close>,
  \<^verbatim>\<open>errors\<close>, \<^verbatim>\<open>progress\<close> and the three other flags are as before.
\<close>

theorem toggle_block_involution:
  "figmaStepsReducer (figmaStepsReducer s (TOGGLE_BLOCK k)) (TOGGLE_BLOCK k) = s
   \<and> stepData (figmaStepsReducer s (TOGGLE_BLOCK k)) = stepData s
   \<and> stepStatus (figmaStepsReducer s (TOGGLE_BLOCK k)) = stepStatus s
   \<and> previewMode (uiState (figmaStepsReducer s (TOGGLE_BLOCK k))) = previewMode (uiState s)
   \<and> errors (uiState (figmaStepsReducer s (TOGGLE_BLOCK k))) = errors (uiState s)
   \<and> progress (uiState (figmaStepsReducer s (TOGGLE_BLOCK k))) = progress (uiState s)
   \<and> getBlock (expandedBlocks (uiState (figmaStepsReducer s (TOGGLE_BLOCK k)))) k
       = (\<not> getBlock (expandedBlocks (uiState s)) k)
   \<and> (\<forall>k'. k' \<noteq> k \<longrightarrow>
        getBlock (expandedBlocks (uiState (figmaStepsReducer s (TOGGLE_BLOCK k)))) k'
        = getBlock (expandedBlocks (uiState s)) k')"
proof -
  have twice: "toggle (toggle b k) k = b" for b
    by (cases k) simp_all
  have other: "k' \<noteq> k \<Longrightarrow> getBlock (toggle b k) k' = getBlock b k'" for b k'
    by (cases k; cases k') simp_all
  have self: "getBlock (toggle b k) k = (\<not> getBlock b k)" for b
    by (cases k) simp_all
  show ?thesis
    by (simp add: twice other self)
qed

theorem toggle_block_involution_witness:
  "Block3 \<noteq> Block2
   \<and> getBlock (expandedBlocks (uiState (figmaStepsReducer initialState (TOGGLE_BLOCK Block2)))) Block3
       = getBlock (expandedBlocks (uiState initialState)) Block3
   \<and> getBlock (expandedBlocks (uiState (figmaStepsReducer initialState (TOGGLE_BLOCK Block2)))) Block2
   \<and> figmaStepsReducer (figmaStepsReducer initialState (TOGGLE_BLOCK Block2)) (TOGGLE_BLOCK Block2)
       = initialState"
  using toggle_block_involution [of initialState Block2]
  by (simp add: initialState_def)

text \<open>
  C5.  Every merge action is a shallow overwrite: under \<^verbatim>\<open>SET_STEP_DATA\<close>,
  \<^verbatim>\<open>SET_STEP_STATUS\<close>, \<^verbatim>\<open>SET_UI_STATE\<close> and \<^verbatim>\<open>SET_PROGRESS\<close> a field absent
  from the payload keeps its value, a field present in the payload takes the
  payload's value, and the sibling branches of the state are untouched.
  \<^verbatim>\<open>SET_ERROR\<close> writes the entry of its key and leaves every other entry and
  the rest of the state as they were.  The reducer has no failing branch:
  each action yields the whole merge.
\<close>

theorem merge_actions_frame:
  "stepStatus (figmaStepsReducer s (SET_STEP_DATA pd)) = stepStatus s
   \<and> uiState (figmaStepsReducer s (SET_STEP_DATA pd)) = uiState s
   \<and> (p_figmaUrl pd = None \<longrightarrow>
        figmaUrl (stepData (figmaStepsReducer s (SET_STEP_DATA pd))) = figmaUrl (stepData s))
   \<and> (\<forall>v. p_figmaUrl pd = Some v \<longrightarrow>
        figmaUrl (stepData (figmaStepsReducer s (SET_STEP_DATA pd))) = v)
   \<and> (p_accessToken pd = None \<longrightarrow>
        accessToken (stepData (figmaStepsReducer s (SET_STEP_DATA pd)))
          = accessToken (stepData s))
   \<and> (\<forall>v. p_accessToken pd = Some v \<longrightarrow>
        accessToken (stepData (figmaStepsReducer s (SET_STEP_DATA pd))) = v)
   \<and> (p_figmaData pd = None \<longrightarrow>
        figmaData (stepData (figmaStepsReducer s (SET_STEP_DATA pd))) = figmaData (stepData s))
   \<and> (\<forall>v. p_figmaData pd = Some v \<longrightarrow>
        figmaData (stepData (figmaStepsReducer s (SET_STEP_DATA pd))) = v)
   \<and> (p_svgCode pd = None \<longrightarrow>
        svgCode (stepData (figmaStepsReducer s (SET_STEP_DATA pd))) = svgCode (stepData s))
   \<and> (\<forall>v. p_svgCode pd = Some v \<longrightarrow>
        svgCode (stepData (figmaStepsReducer s (SET_STEP_DATA pd))) = v)
   \<and> (p_generatedTsxCode pd = None \<longrightarrow>
        generatedTsxCode (stepData (figmaStepsReducer s (SET_STEP_DATA pd)))
          = generatedTsxCode (stepData s))
   \<and> (\<forall>v. p_generatedTsxCode pd = Some v \<longrightarrow>
        generatedTsxCode (stepData (figmaStepsReducer s (SET_STEP_DATA pd))) = v)
   \<and> (p_cssCode pd = None \<longrightarrow>
        cssCode (stepData (figmaStepsReducer s (SET_STEP_DATA pd))) = cssCode (stepData s))
   \<and> (\<forall>v. p_cssCode pd = Some v \<longrightarrow>
        cssCode (stepData (figmaStepsReducer s (SET_STEP_DATA pd))) = v)
   \<and> (p_jsxCode pd = None \<longrightarrow>
        jsxCode (stepData (figmaStepsReducer s (SET_STEP_DATA pd))) = jsxCode (stepData s))
   \<and> (\<forall>v. p_jsxCode pd = Some v \<longrightarrow>
        jsxCode (stepData (figmaStepsReducer s (SET_STEP_DATA pd))) = v)
   \<and> (p_moreCssCode pd = None \<longrightarrow>
        moreCssCode (stepData (figmaStepsReducer s (SET_STEP_DATA pd)))
          = moreCssCode (stepData s))
   \<and> (\<forall>v. p_moreCssCode pd = Some v \<longrightarrow>
        moreCssCode (stepData (figmaStepsReducer s (SET_STEP_DATA pd))) = v)
   \<and> (p_finalTsxCode pd = None \<longrightarrow>
        finalTsxCode (stepData (figmaStepsReducer s (SET_STEP_DATA pd)))
          = finalTsxCode (stepData s))
   \<and> (\<forall>v. p_finalTsxCode pd = Some v \<longrightarrow>
        finalTsxCode (stepData (figmaStepsReducer s (SET_STEP_DATA pd))) = v)
   \<and> (p_finalCssCode pd = None \<longrightarrow>
        finalCssCode (stepData (figmaStepsReducer s (SET_STEP_DATA pd)))
          = finalCssCode (stepData s))
   \<and> (\<forall>v. p_finalCssCode pd = Some v \<longrightarrow>
        finalCssCode (stepData (figmaStepsReducer s (SET_STEP_DATA pd))) = v)
   \<and> stepData (figmaStepsReducer s (SET_STEP_STATUS ps)) = stepData s
   \<and> uiState (figmaStepsReducer s (SET_STEP_STATUS ps)) = uiState s
   \<and> (p_step1 ps = None \<longrightarrow>
        step1 (stepStatus (figmaStepsReducer s (SET_STEP_STATUS ps))) = step1 (stepStatus s))
   \<and> (\<forall>v. p_step1 ps = Some v \<longrightarrow>
        step1 (stepStatus (figmaStepsReducer s (SET_STEP_STATUS ps))) = v)
   \<and> (p_step2 ps = None \<longrightarrow>
        step2 (stepStatus (figmaStepsReducer s (SET_STEP_STATUS ps))) = step2 (stepStatus s))
   \<and> (\<forall>v. p_step2 ps = Some v \<longrightarrow>
        step2 (stepStatus (figmaStepsReducer s (SET_STEP_STATUS ps))) = v)
   \<and> (p_step3 ps = None \<longrightarrow>
        step3 (stepStatus (figmaStepsReducer s (SET_STEP_STATUS ps))) = step3 (stepStatus s))
   \<and> (\<forall>v. p_step3 ps = Some v \<longrightarrow>
        step3 (stepStatus (figmaStepsReducer s (SET_STEP_STATUS ps))) = v)
   \<and> (p_step4 ps = None \<longrightarrow>
        step4 (stepStatus (figmaStepsReducer s (SET_STEP_STATUS ps))) = step4 (stepStatus s))
   \<and> (\<forall>v. p_step4 ps = Some v \<longrightarrow>
        step4 (stepStatus (figmaStepsReducer s (SET_STEP_STATUS ps))) = v)
   \<and> stepData (figmaStepsReducer s (SET_UI_STATE pu)) = stepData s
   \<and> stepStatus (figmaStepsReducer s (SET_UI_STATE pu)) = stepStatus s
   \<and> (p_expandedBlocks pu = None \<longrightarrow>
        expandedBlocks (uiState (figmaStepsReducer s (SET_UI_STATE pu)))
          = expandedBlocks (uiState s))
   \<and> (\<forall>v. p_expandedBlocks pu = Some v \<longrightarrow>
        expandedBlocks (uiState (figmaStepsReducer s (SET_UI_STATE pu))) = v)
   \<and> (p_previewMode pu = None \<longrightarrow>
        previewMode (uiState (figmaStepsReducer s (SET_UI_STATE pu))) = previewMode (uiState s))
   \<and> (\<forall>v. p_previewMode pu = Some v \<longrightarrow>
        previewMode (uiState (figmaStepsReducer s (SET_UI_STATE pu))) = v)
   \<and> (p_errors pu = None \<longrightarrow>
        errors (uiState (figmaStepsReducer s (SET_UI_STATE pu))) = errors (uiState s))
   \<and> (\<forall>v. p_errors pu = Some v \<longrightarrow>
        errors (uiState (figmaStepsReducer s (SET_UI_STATE pu))) = v)
   \<and> (p_progress pu = None \<longrightarrow>
        progress (uiState (figmaStepsReducer s (SET_UI_STATE pu))) = progress (uiState s))
   \<and> (\<forall>v. p_progress pu = Some v \<longrightarrow>
        progress (uiState (figmaStepsReducer s (SET_UI_STATE pu))) = v)
   \<and> stepData (figmaStepsReducer s (SET_PROGRESS pp)) = stepData s
   \<and> stepStatus (figmaStepsReducer s (SET_PROGRESS pp)) = stepStatus s
   \<and> expandedBlocks (uiState (figmaStepsReducer s (SET_PROGRESS pp))) = expandedBlocks (uiState s)
   \<and> previewMode (uiState (figmaStepsReducer s (SET_PROGRESS pp))) = previewMode (uiState s)
   \<and> errors (uiState (figmaStepsReducer s (SET_PROGRESS pp))) = errors (uiState s)
   \<and> (p_current pp = None \<longrightarrow>
        current (progress (uiState (figmaStepsReducer s (SET_PROGRESS pp))))
          = current (progress (uiState s)))
   \<and> (\<forall>v. p_current pp = Some v \<longrightarrow>
        current (progress (uiState (figmaStepsReducer s (SET_PROGRESS pp)))) = v)
   \<and> (p_total pp = None \<longrightarrow>
        total_steps (progress (uiState (figmaStepsReducer s (SET_PROGRESS pp))))
          = total_steps (progress (uiState s)))
   \<and> (\<forall>v. p_total pp = Some v \<longrightarrow>
        total_steps (progress (uiState (figmaStepsReducer s (SET_PROGRESS pp)))) = v)
   \<and> (p_message pp = None \<longrightarrow>
        message (progress (uiState (figmaStepsReducer s (SET_PROGRESS pp))))
          = message (progress (uiState s)))
   \<and> (\<forall>v. p_message pp = Some v \<longrightarrow>
        message (progress (uiState (figmaStepsReducer s (SET_PROGRESS pp)))) = v)
   \<and> stepData (figmaStepsReducer s (SET_ERROR k e)) = stepData s
   \<and> stepStatus (figmaStepsReducer s (SET_ERROR k e)) = stepStatus s
   \<and> expandedBlocks (uiState (figmaStepsReducer s (SET_ERROR k e))) = expandedBlocks (uiState s)
   \<and> previewMode (uiState (figmaStepsReducer s (SET_ERROR k e))) = previewMode (uiState s)
   \<and> progress (uiState (figmaStepsReducer s (SET_ERROR k e))) = progress (uiState s)
   \<and> errors (uiState (figmaStepsReducer s (SET_ERROR k e))) k = Some e
   \<and> (\<forall>k'. k' \<noteq> k \<longrightarrow>
        errors (uiState (figmaStepsReducer s (SET_ERROR k e))) k' = errors (uiState s) k')"
  by (simp add: mergeStepData_def mergeStepStatus_def mergeUIState_def mergeProgress_def over_def)

theorem merge_actions_frame_witness:
  "p_figmaUrl (noStepData\<lparr>p_svgCode := Some ''<svg/>''\<rparr>) = None
   \<and> figmaUrl (stepData (figmaStepsReducer initialState
        (SET_STEP_DATA (noStepData\<lparr>p_svgCode := Some ''<svg/>''\<rparr>))))
       = figmaUrl (stepData initialState)
   \<and> p_svgCode (noStepData\<lparr>p_svgCode := Some ''<svg/>''\<rparr>) = Some ''<svg/>''
   \<and> svgCode (stepData (figmaStepsReducer initialState
        (SET_STEP_DATA (noStepData\<lparr>p_svgCode := Some ''<svg/>''\<rparr>)))) = ''<svg/>''
   \<and> p_step2 (noStepStatus\<lparr>p_step1 := Some Loading\<rparr>) = None
   \<and> step2 (stepStatus (figmaStepsReducer initialState
        (SET_STEP_STATUS (noStepStatus\<lparr>p_step1 := Some Loading\<rparr>)))) = step2 (stepStatus initialState)
   \<and> step1 (stepStatus (figmaStepsReducer initialState
        (SET_STEP_STATUS (noStepStatus\<lparr>p_step1 := Some Loading\<rparr>)))) = Loading
   \<and> p_progress (noUIState\<lparr>p_previewMode := Some True\<rparr>) = None
   \<and> progress (uiState (figmaStepsReducer initialState
        (SET_UI_STATE (noUIState\<lparr>p_previewMode := Some True\<rparr>)))) = progress (uiState initialState)
   \<and> previewMode (uiState (figmaStepsReducer initialState
        (SET_UI_STATE (noUIState\<lparr>p_previewMode := Some True\<rparr>))))
   \<and> p_total (noProgress\<lparr>p_message := Some ''Connecting''\<rparr>) = None
   \<and> total_steps (progress (uiState (figmaStepsReducer initialState
        (SET_PROGRESS (noProgress\<lparr>p_message := Some ''Connecting''\<rparr>))))) = 4
   \<and> message (progress (uiState (figmaStepsReducer initialState
        (SET_PROGRESS (noProgress\<lparr>p_message := Some ''Connecting''\<rparr>))))) = ''Connecting''
   \<and> ''step2'' \<noteq> ''step1''
   \<and> errors (uiState (figmaStepsReducer (figmaStepsReducer initialState (SET_ERROR ''step2'' ''old''))
        (SET_ERROR ''step1'' ''boom''))) ''step2'' = Some ''old''
   \<and> errors (uiState (figmaStepsReducer (figmaStepsReducer initialState (SET_ERROR ''step2'' ''old''))
        (SET_ERROR ''step1'' ''boom''))) ''step1'' = Some ''boom''"
  using merge_actions_frame [of initialState "noStepData\<lparr>p_svgCode := Some ''<svg/>''\<rparr>"
      "noStepStatus\<lparr>p_step1 := Some Loading\<rparr>" "noUIState\<lparr>p_previewMode := Some True\<rparr>"
      "noProgress\<lparr>p_message := Some ''Connecting''\<rparr>" "''step1''" "''boom''"]
    merge_actions_frame [of "figmaStepsReducer initialState (SET_ERROR ''step2'' ''old'')"
      "noStepData" "noStepStatus" "noUIState" "noProgress" "''step1''" "''boom''"]
  by (simp add: initialState_def noStepData_def noStepStatus_def noUIState_def noProgress_def
      mergeStepData_def mergeStepStatus_def mergeUIState_def mergeProgress_def over_def)

section \<open>Properties of the artifact combiner\<close>

subsection \<open>The matcher finds exactly the strings of the regular expression\<close>

lemma includes_str_sublist: "includes_str s p \<longleftrightarrow> sublist p s"
  by (induction s) (auto simp: sublist_Cons_right)

lemma not_ws_close [simp]: "\<not> isWhiteSpace (CHR '')'')" "\<not> isWhiteSpace (CHR ''('')"
  by (simp_all add: isWhiteSpace_def)

lemma matchClose_Some:
  "matchClose s = Some r \<longleftrightarrow> (\<exists>w. allWhiteSpace w \<and> s = w @ '');'' @ r)"
proof
  assume m: "matchClose s = Some r"
  then have "dropWhile isWhiteSpace s = '');'' @ r"
    by (auto simp: matchClose_def split: list.splits if_splits)
  then have "s = takeWhile isWhiteSpace s @ '');'' @ r"
    by (metis takeWhile_dropWhile_id)
  moreover have "allWhiteSpace (takeWhile isWhiteSpace s)"
    by (auto simp: allWhiteSpace_def list_all_iff dest: set_takeWhileD)
  ultimately show "\<exists>w. allWhiteSpace w \<and> s = w @ '');'' @ r" by blast
next
  assume "\<exists>w. allWhiteSpace w \<and> s = w @ '');'' @ r"
  then obtain w where w: "allWhiteSpace w" "s = w @ '');'' @ r" by blast
  then have "dropWhile isWhiteSpace s = '');'' @ r"
    by (simp add: allWhiteSpace_def list_all_iff dropWhile_append2)
  then show "matchClose s = Some r"
    by (simp add: matchClose_def)
qed

lemma matchLazy_sound:
  "matchLazy s = Some (cap, r) \<Longrightarrow> \<exists>w. allWhiteSpace w \<and> s = cap @ w @ '');'' @ r"
proof (induction s arbitrary: cap)
  case Nil
  then show ?case by (auto simp: matchClose_Some)
next
  case (Cons c s)
  show ?case
  proof (cases "matchClose (c # s)")
    case (Some r')
    with Cons.prems have "cap = []" "r' = r" by simp_all
    with Some show ?thesis by (simp add: matchClose_Some)
  next
    case None
    with Cons.prems obtain cap' where "matchLazy s = Some (cap', r)" "cap = c # cap'"
      by auto
    with Cons.IH show ?thesis by auto
  qed
qed

lemma matchLazy_complete: "matchLazy (u @ '');'' @ r) \<noteq> None"
proof (induction u)
  case Nil
  have "matchClose ('');'' @ r) = Some r"
    by (simp add: matchClose_def)
  then show ?case by simp
next
  case (Cons c u)
  then show ?case by (cases "matchClose (c # u @ '');'' @ r)") auto
qed

lemma matchHere_sound:
  assumes "matchHere s = Some (cap, rest)"
  shows "\<exists>m. s = m @ rest \<and> inReturnRegex m cap"
proof -
  from assms have start: "prefix ''return'' s"
    by (auto simp: matchHere_def startsWith_def split: if_splits)
  then have s: "s = ''return'' @ drop 6 s"
    by (auto simp: prefix_def)
  from assms start obtain r where
    r: "dropWhile isWhiteSpace (drop 6 s) = CHR ''('' # r"
    and lazy: "matchLazy (dropWhile isWhiteSpace r) = Some (cap, rest)"
    by (auto simp: matchHere_def startsWith_def split: list.splits if_splits)
  define w1 where "w1 = takeWhile isWhiteSpace (drop 6 s)"
  define w2 where "w2 = takeWhile isWhiteSpace r"
  have ws: "allWhiteSpace w1" "allWhiteSpace w2"
    by (auto simp: allWhiteSpace_def list_all_iff w1_def w2_def dest: set_takeWhileD)
  have d6: "drop 6 s = w1 @ CHR ''('' # r"
    unfolding w1_def using r by (metis takeWhile_dropWhile_id)
  from matchLazy_sound [OF lazy] obtain w3 where
    w3: "allWhiteSpace w3" "dropWhile isWhiteSpace r = cap @ w3 @ '');'' @ rest"
    by blast
  have r2: "r = w2 @ cap @ w3 @ '');'' @ rest"
    unfolding w2_def using w3(2) by (metis takeWhile_dropWhile_id)
  have "s = (''return'' @ w1 @ ''('' @ w2 @ cap @ w3 @ '');'') @ rest"
    using s d6 r2 by simp
  moreover have "inReturnRegex (''return'' @ w1 @ ''('' @ w2 @ cap @ w3 @ '');'') cap"
    unfolding inReturnRegex_def using ws w3(1) by blast
  ultimately show ?thesis by blast
qed

lemma matchHere_complete:
  assumes "inReturnRegex m cap"
  shows "matchHere (m @ post) \<noteq> None"
proof -
  from assms obtain w1 w2 w3 where ws: "allWhiteSpace w1" "allWhiteSpace w2" "allWhiteSpace w3"
    and m: "m = ''return'' @ w1 @ ''('' @ w2 @ cap @ w3 @ '');''"
    by (auto simp: inReturnRegex_def)
  let ?tail = "CHR '')'' # CHR '';'' # post"
  have d1: "dropWhile isWhiteSpace (drop 6 (m @ post)) = CHR ''('' # (w2 @ (cap @ w3) @ ?tail)"
    using ws(1) by (simp add: m allWhiteSpace_def list_all_iff dropWhile_append2)
  have "dropWhile isWhiteSpace (w2 @ (cap @ w3) @ ?tail) = dropWhile isWhiteSpace ((cap @ w3) @ ?tail)"
    using ws(2) by (simp add: allWhiteSpace_def list_all_iff dropWhile_append2)
  also have "\<dots> = dropWhile isWhiteSpace (cap @ w3) @ ?tail"
    by (rule dropWhile_append3) simp
  finally have d2: "dropWhile isWhiteSpace (w2 @ (cap @ w3) @ ?tail)
                      = dropWhile isWhiteSpace (cap @ w3) @ '');'' @ post"
    by simp
  have start: "startsWith (m @ post) ''return''"
    by (simp add: m startsWith_def)
  have "matchHere (m @ post) = matchLazy (dropWhile isWhiteSpace (cap @ w3) @ '');'' @ post)"
    unfolding matchHere_def d1 using start by (simp only: d2 if_True list.case refl)
  then show ?thesis
    using matchLazy_complete [of "dropWhile isWhiteSpace (cap @ w3)" post] by simp
qed

lemma matchReturn_sound:
  "matchReturn s = Some (i, m, cap) \<Longrightarrow>
     \<exists>pre post. s = pre @ m @ post \<and> length pre = i \<and> inReturnRegex m cap"
proof (induction s arbitrary: i)
  case Nil
  then show ?case by simp
next
  case (Cons c s)
  show ?case
  proof (cases "matchHere (c # s)")
    case (Some a)
    obtain cap' rest where a: "a = (cap', rest)" by (cases a)
    from matchHere_sound [of "c # s" cap' rest] Some a obtain m' where
      m': "c # s = m' @ rest" "inReturnRegex m' cap'" by auto
    have "take (length (c # s) - length rest) (c # s) = m'"
      by (subst m'(1), subst m'(1)) simp
    with Cons.prems Some a have "i = 0" "m = m'" "cap = cap'"
      by simp_all
    with m' show ?thesis by (intro exI [of _ "[]"] exI [of _ rest]) simp
  next
    case None
    with Cons.prems obtain j where "matchReturn s = Some (j, m, cap)" "i = Suc j"
      by auto
    with Cons.IH obtain pre post where "s = pre @ m @ post" "length pre = j" "inReturnRegex m cap"
      by blast
    then show ?thesis
      using \<open>i = Suc j\<close> by (intro exI [of _ "c # pre"] exI [of _ post]) simp
  qed
qed

lemma matchReturn_complete:
  "inReturnRegex m cap \<Longrightarrow> matchReturn (pre @ m @ post) \<noteq> None"
proof (induction pre)
  case Nil
  from Nil have ne: "m \<noteq> []" by (auto simp: inReturnRegex_def)
  then obtain c t where ct: "m @ post = c # t" by (cases m) auto
  from matchHere_complete [OF Nil, of post] show ?case
    by (auto simp: ct)
next
  case (Cons c pre)
  then show ?case
    by (cases "matchHere (c # pre @ m @ post)") auto
qed

lemma matchReturn_None_iff: "matchReturn s = None \<longleftrightarrow> \<not> hasReturnPattern s"
proof
  assume none: "matchReturn s = None"
  show "\<not> hasReturnPattern s"
  proof
    assume "hasReturnPattern s"
    then obtain pre m cap post where "s = pre @ m @ post" "inReturnRegex m cap"
      by (auto simp: hasReturnPattern_def)
    with matchReturn_complete [of m cap pre post] none show False
      by simp
  qed
next
  assume n: "\<not> hasReturnPattern s"
  show "matchReturn s = None"
  proof (rule ccontr)
    assume "matchReturn s \<noteq> None"
    then obtain i m cap where "matchReturn s = Some (i, m, cap)" by auto
    from matchReturn_sound [OF this] n show False
      by (auto simp: hasReturnPattern_def)
  qed
qed

text \<open>
  The match is the one a backtracking engine reports: it starts at the
  leftmost position where the expression matches, the white space after the
  parenthesis is taken in full, and the capture is the shortest one that
  lets the rest of the expression match.
\<close>

lemma matchReturn_leftmost:
  "matchReturn s = Some (i, m, cap) \<Longrightarrow> s = pre @ m' @ post \<Longrightarrow> inReturnRegex m' cap'
     \<Longrightarrow> i \<le> length pre"
proof (induction s arbitrary: i pre)
  case Nil
  then show ?case by simp
next
  case (Cons c s)
  show ?case
  proof (cases "matchHere (c # s)")
    case (Some a)
    with Cons.prems(1) show ?thesis by (auto split: prod.splits)
  next
    case None
    with Cons.prems(1) obtain j where j: "matchReturn s = Some (j, m, cap)" "i = Suc j"
      by auto
    show ?thesis
    proof (cases pre)
      case Nil
      with Cons.prems(2) matchHere_complete [OF Cons.prems(3), of post] None show ?thesis
        by simp
    next
      case (Cons d pre')
      with Cons.prems(2) have "s = pre' @ m' @ post" by simp
      from Cons.IH [OF j(1) this Cons.prems(3)] j(2) Cons show ?thesis by simp
    qed
  qed
qed

lemma matchLazy_shortest:
  "matchLazy s = Some (cap, rest) \<Longrightarrow> s = cap' @ w @ '');'' @ rest' \<Longrightarrow> allWhiteSpace w
     \<Longrightarrow> length cap \<le> length cap'"
proof (induction s arbitrary: cap cap')
  case Nil
  then show ?case by simp
next
  case (Cons c s)
  show ?case
  proof (cases "matchClose (c # s)")
    case (Some r)
    with Cons.prems(1) show ?thesis by simp
  next
    case None
    with Cons.prems(1) obtain cap0 where cap0: "matchLazy s = Some (cap0, rest)" "cap = c # cap0"
      by auto
    show ?thesis
    proof (cases cap')
      case Nil
      with Cons.prems(2,3) have "matchClose (c # s) = Some rest'"
        by (auto simp: matchClose_Some)
      with None show ?thesis by simp
    next
      case (Cons d cap'')
      with Cons.prems(2) have "s = cap'' @ w @ '');'' @ rest'" by simp
      from Cons.IH [OF cap0(1) this Cons.prems(3)] cap0(2) Cons show ?thesis by simp
    qed
  qed
qed

lemma matchLazy_capture_prefix:
  "matchLazy s = Some (cap, rest) \<Longrightarrow> prefix cap s"
  using matchLazy_sound by fastforce

lemma matchHere_capture_left_trimmed:
  assumes "matchHere s = Some (cap, rest)"
  shows "cap = [] \<or> \<not> isWhiteSpace (hd cap)"
proof -
  from assms obtain r where "matchLazy (dropWhile isWhiteSpace r) = Some (cap, rest)"
    by (auto simp: matchHere_def split: if_splits list.splits)
  from matchLazy_capture_prefix [OF this] show ?thesis
  proof (cases cap)
    case Nil
    then show ?thesis by simp
  next
    case (Cons a list)
    assume "prefix cap (dropWhile isWhiteSpace r)"
    with Cons obtain zs where d: "dropWhile isWhiteSpace r = a # list @ zs"
      by (auto simp: prefix_def)
    then have "dropWhile isWhiteSpace r \<noteq> []" by simp
    from hd_dropWhile [OF this] d have "\<not> isWhiteSpace a" by simp
    with Cons show ?thesis by simp
  qed
qed

subsection \<open>Occurrences of a text that has no line break\<close>

lemma sublist_skip_char:
  assumes "c \<notin> set b"
  shows "sublist b (x @ c # y) \<longleftrightarrow> sublist b x \<or> sublist b y"
proof
  assume "sublist b (x @ c # y)"
  then consider "sublist b x" | "sublist b (c # y)"
    | xs1 xs2 where "b = xs1 @ xs2" "suffix xs1 x" "prefix xs2 (c # y)"
    by (auto simp: sublist_append)
  then show "sublist b x \<or> sublist b y"
  proof cases
    case 1
    then show ?thesis by simp
  next
    case 2
    then have "prefix b (c # y) \<or> sublist b y"
      by (simp add: sublist_Cons_right)
    moreover have "b = []" if "prefix b (c # y)"
      using that assms by (cases b) auto
    ultimately show ?thesis by auto
  next
    case 3
    have "xs2 = []"
      using 3(1,3) assms by (cases xs2) auto
    with 3 have "suffix b x" by simp
    then show ?thesis by (auto intro: suffix_imp_sublist)
  qed
next
  assume "sublist b x \<or> sublist b y"
  then show "sublist b (x @ c # y)"
    by (auto simp: sublist_append sublist_Cons_right)
qed

lemma combineCssCode_additional_only:
  assumes "trim baseCss = []" and "trim additionalCss \<noteq> []"
  shows "combineCssCode baseCss additionalCss fData now
           = (case fData of None \<Rightarrow> [] | Some fd \<Rightarrow> cssHeader fd now)
             @ additionalStylesHeader @ ''\<newline>'' @ additionalCss @ ''\<newline>\<newline>''
             @ responsiveUtilities"
  using assms by (simp add: combineCssCode_def split: option.splits)

lemma no_base_header_None:
  assumes "\<not> sublist baseStylesHeader additionalCss"
  shows "\<not> sublist baseStylesHeader
           (additionalStylesHeader @ ''\<newline>'' @ additionalCss @ ''\<newline>\<newline>'' @ responsiveUtilities)"
  using assms
  by (simp add: baseStylesHeader_def additionalStylesHeader_def responsiveUtilities_def
      sublist_Cons_right sublist_skip_char)

lemma no_base_header_Some:
  assumes "\<not> sublist baseStylesHeader additionalCss"
    and "\<not> sublist baseStylesHeader (fileNameOf fd)" and "\<not> sublist baseStylesHeader now"
  shows "\<not> sublist baseStylesHeader
           (cssHeader fd now @ additionalStylesHeader @ ''\<newline>'' @ additionalCss
            @ ''\<newline>\<newline>'' @ responsiveUtilities)"
  using assms
  by (simp add: baseStylesHeader_def additionalStylesHeader_def responsiveUtilities_def
      cssHeader_def sublist_Cons_right sublist_skip_char)

subsection \<open>Markup combine\<close>

text \<open>Every count lies in the range that is printed without an exponent.\<close>

lemma count_prints_without_exponent: "unat (w :: 53 word) < 10 ^ 21"
proof -
  have "unat w < 2 ^ 53"
    using unsigned_less [of w] by simp
  also have "(2 :: nat) ^ 53 < 10 ^ 21" by simp
  finally show ?thesis .
qed

text \<open>
  C9.  When no part of the generated source is matched by the regular
  expression, \<^verbatim>\<open>combineCodePieces\<close> splices nothing, whatever the user markup
  is: without document metadata the result is the generated source itself,
  and with document metadata it is the generated source behind the metadata
  comment block, which is prepended in every case.
\<close>

theorem combine_without_return_pattern:
  assumes "\<not> hasReturnPattern generatedTsx"
  shows "combineCodePieces generatedTsx manualJsx None now = generatedTsx
     \<and> combineCodePieces generatedTsx manualJsx (Some fd) now
         = tsxMetadata fd now @ generatedTsx"
proof -
  from assms have "matchReturn generatedTsx = None"
    by (simp add: matchReturn_None_iff)
  then show ?thesis
    by (simp add: combineCodePieces_def)
qed

theorem combine_without_return_pattern_witness:
  "\<not> hasReturnPattern ''function C() { return <svg/>; }''
   \<and> combineCodePieces ''function C() { return <svg/>; }'' ''<b>new</b>'' None
        ''2024-01-01T00:00:00.000Z'' = ''function C() { return <svg/>; }''
   \<and> combineCodePieces ''function C() { return <svg/>; }'' ''<b>new</b>'' (Some sampleBundle)
        ''2024-01-01T00:00:00.000Z''
       = tsxMetadata sampleBundle ''2024-01-01T00:00:00.000Z'' @ ''function C() { return <svg/>; }''"
proof -
  have h: "\<not> hasReturnPattern ''function C() { return <svg/>; }''"
    unfolding matchReturn_None_iff [symmetric]
    by (simp add: matchHere_def startsWith_def isWhiteSpace_def)
  show ?thesis
    using h combine_without_return_pattern [OF h] by simp
qed

text \<open>
  With document metadata present the result is not the generated source
  unmodified: the comment block stands in front of it.
\<close>

theorem combine_without_return_pattern_counterexample:
  "matchReturn ''function C() { return <svg/>; }'' = None
   \<and> combineCodePieces ''function C() { return <svg/>; }'' ''<b>new</b>'' (Some sampleBundle)
        ''2024-01-01T00:00:00.000Z'' \<noteq> ''function C() { return <svg/>; }''"
  by (simp add: matchHere_def startsWith_def isWhiteSpace_def combineCodePieces_def
      tsxMetadata_def)

text \<open>
  Where the pattern matches, the text \<^verbatim>\<open>replace\<close> looks for starts at the
  index of the match: an earlier occurrence of the matched text would be an
  earlier match.
\<close>

lemma matchReturn_indexOf:
  "matchReturn s = Some (i, m, cap) \<Longrightarrow> indexOf s m = Some i"
proof (induction s arbitrary: i)
  case Nil
  then show ?case by simp
next
  case (Cons c s)
  show ?case
  proof (cases "matchHere (c # s)")
    case (Some a)
    with Cons.prems have "i = 0" "prefix m (c # s)"
      by (auto simp: take_is_prefix split: prod.splits)
    then show ?thesis by simp
  next
    case None
    with Cons.prems obtain j where j: "matchReturn s = Some (j, m, cap)" "i = Suc j"
      by auto
    from matchReturn_sound [OF j(1)] have re: "inReturnRegex m cap"
      by blast
    have "\<not> prefix m (c # s)"
    proof
      assume "prefix m (c # s)"
      then obtain post where "c # s = m @ post"
        by (auto simp: prefix_def)
      with matchHere_complete [OF re, of post] None show False
        by simp
    qed
    with Cons.IH [OF j(1)] j(2) show ?thesis by simp
  qed
qed

lemma getSubstitution_plain:
  "CHR ''$'' \<notin> set r \<Longrightarrow> getSubstitution m s p r = r"
  by (induction m s p r rule: getSubstitution.induct) auto

text \<open>
  What the splice does when neither the captured markup nor the user markup
  contains a dollar sign: the matched text is replaced by the fragment that
  wraps the trimmed capture and then the user markup, and the text around
  the match is kept.
\<close>

lemma combine_fragment_without_dollar:
  assumes "matchReturn generatedTsx = Some (i, m, cap)"
    and "startsWith (trim cap) ''<svg''" and "trim manualJsx \<noteq> []"
    and "CHR ''$'' \<notin> set cap" and "CHR ''$'' \<notin> set manualJsx"
  shows "\<exists>pre post. generatedTsx = pre @ m @ post \<and> length pre = i
           \<and> combineCodePieces generatedTsx manualJsx None now
               = pre @ ''return (\<newline>    <React.Fragment>\<newline>      '' @ trim cap
                 @ ''\<newline>      {/* Additional JSX */}\<newline>      '' @ manualJsx
                 @ ''\<newline>    </React.Fragment>\<newline>  );'' @ post"
proof -
  from matchReturn_sound [OF assms(1)] obtain pre post where
    g: "generatedTsx = pre @ m @ post" "length pre = i"
    by blast
  have "set (trim cap) \<subseteq> set cap"
    unfolding trim_def by (auto dest!: set_dropWhileD)
  with assms(4,5) have plain: "CHR ''$'' \<notin> set (fragmentReturn (trim cap) manualJsx)"
    by (auto simp: fragmentReturn_def)
  have "replace generatedTsx m (fragmentReturn (trim cap) manualJsx)
          = pre @ fragmentReturn (trim cap) manualJsx @ post"
    using matchReturn_indexOf [OF assms(1)] g
    by (simp add: replace_def getSubstitution_plain [OF plain])
  then have "combineCodePieces generatedTsx manualJsx None now
               = pre @ fragmentReturn (trim cap) manualJsx @ post"
    using assms(1,2,3) by (simp add: combineCodePieces_def)
  with g show ?thesis
    by (auto simp: fragmentReturn_def)
qed

text \<open>
  The capture also ends at the first \<^verbatim>\<open>);\<close> when that lies inside the root
  element: here the fragment wraps only the beginning of the element.
\<close>

lemma combine_capture_stops_at_first_close:
  "matchReturn ''const C = () => { return (<svg onClick={() => save();}><rect/></svg>); };''
     = Some (18, ''return (<svg onClick={() => save();'', ''<svg onClick={() => save('')
   \<and> combineCodePieces
        ''const C = () => { return (<svg onClick={() => save();}><rect/></svg>); };''
        ''<p>hi</p>'' None ''2024-01-01T00:00:00.000Z''
       = ''const C = () => { return (\<newline>    <React.Fragment>\<newline>      <svg onClick={() => save(\<newline>      {/* Additional JSX */}\<newline>      <p>hi</p>\<newline>    </React.Fragment>\<newline>  );}><rect/></svg>); };''"
  by (simp add: combineCodePieces_def matchHere_def matchClose_def startsWith_def
      isWhiteSpace_def trim_def replace_def fragmentReturn_def)

text \<open>
  C7.  The generated source below has one \<^verbatim>\<open>return (...)\<close> whose root is an
  \<^verbatim>\<open><svg>\<close> element, and the user markup is not empty.  The user markup
  contains the two characters \<^verbatim>\<open>$'\<close>, which \<^verbatim>\<open>String.prototype.replace\<close>
  expands in its replacement text to the part of the source after the match.
  The output therefore holds a fragment with the original element first, but
  not the user markup: in its place stands the markup with \<^verbatim>\<open> };\<close> spliced
  into it.
\<close>

theorem combine_dollar_pattern_failing_input:
  "matchReturn ''const C = () => { return (<svg><rect/></svg>); };''
     = Some (18, ''return (<svg><rect/></svg>);'', ''<svg><rect/></svg>'')
   \<and> trim ''<span>{'$'}9.99</span>'' \<noteq> []
   \<and> combineCodePieces ''const C = () => { return (<svg><rect/></svg>); };''
        ''<span>{'$'}9.99</span>'' None ''2024-01-01T00:00:00.000Z''
       = ''const C = () => { return (\<newline>    <React.Fragment>\<newline>      <svg><rect/></svg>\<newline>      {/* Additional JSX */}\<newline>      <span>{' };}9.99</span>\<newline>    </React.Fragment>\<newline>  ); };''
   \<and> \<not> includes_str
        (combineCodePieces ''const C = () => { return (<svg><rect/></svg>); };''
           ''<span>{'$'}9.99</span>'' None ''2024-01-01T00:00:00.000Z'')
        ''<span>{'$'}9.99</span>''"
  by (simp add: combineCodePieces_def matchHere_def matchClose_def startsWith_def
      isWhiteSpace_def trim_def replace_def fragmentReturn_def)

subsection \<open>Style combine\<close>

text \<open>
  C8.  With a base style that is empty after trimming and an additional
  style that is not, \<^verbatim>\<open>combineCssCode\<close> returns the header comment (when there
  is document metadata), the additional-styles section and the responsive
  section, and nothing else: no base-styles section is written.  The output
  contains the additional-styles header followed by the additional text, and
  the responsive section.  The text of the base-styles header occurs in the
  output only if the additional style text, the document name or the
  timestamp contains it.
\<close>

theorem css_combine_additional_only:
  assumes "trim baseCss = []" and "trim additionalCss \<noteq> []"
  shows "combineCssCode baseCss additionalCss fData now
           = (case fData of None \<Rightarrow> [] | Some fd \<Rightarrow> cssHeader fd now)
             @ additionalStylesHeader @ ''\<newline>'' @ additionalCss @ ''\<newline>\<newline>''
             @ responsiveUtilities
     \<and> includes_str (combineCssCode baseCss additionalCss fData now)
          (additionalStylesHeader @ ''\<newline>'' @ additionalCss @ ''\<newline>\<newline>'')
     \<and> includes_str (combineCssCode baseCss additionalCss fData now) responsiveUtilities
     \<and> (\<not> includes_str additionalCss baseStylesHeader
          \<and> (\<forall>fd. fData = Some fd \<longrightarrow>
                 \<not> includes_str (fileNameOf fd) baseStylesHeader
                 \<and> \<not> includes_str now baseStylesHeader)
          \<longrightarrow> \<not> includes_str (combineCssCode baseCss additionalCss fData now) baseStylesHeader)"
proof -
  let ?head = "case fData of None \<Rightarrow> [] | Some fd \<Rightarrow> cssHeader fd now"
  let ?section = "additionalStylesHeader @ ''\<newline>'' @ additionalCss @ ''\<newline>\<newline>''"
  have eq: "combineCssCode baseCss additionalCss fData now = ?head @ ?section @ responsiveUtilities"
    using combineCssCode_additional_only [OF assms] by simp
  have "sublist ?section (?head @ ?section @ responsiveUtilities)"
    by (rule sublist_appendI)
  moreover have "sublist responsiveUtilities ((?head @ ?section) @ responsiveUtilities @ [])"
    by (rule sublist_appendI)
  moreover have "\<not> sublist baseStylesHeader (?head @ ?section @ responsiveUtilities)"
    if "\<not> sublist baseStylesHeader additionalCss"
      and "\<forall>fd. fData = Some fd \<longrightarrow>
             \<not> sublist baseStylesHeader (fileNameOf fd) \<and> \<not> sublist baseStylesHeader now"
  proof (cases fData)
    case None
    with no_base_header_None [OF that(1)] show ?thesis by simp
  next
    case (Some fd)
    with that(2) no_base_header_Some [OF that(1), of fd now] show ?thesis by simp
  qed
  ultimately show ?thesis
    by (simp add: eq includes_str_sublist)
qed

theorem css_combine_additional_only_witness:
  "trim ''  '' = [] \<and> trim ''.btn { color: red }'' \<noteq> []
   \<and> \<not> includes_str ''.btn { color: red }'' baseStylesHeader
   \<and> combineCssCode ''  '' ''.btn { color: red }'' None ''2024-01-01T00:00:00.000Z''
       = ''/* Additional Styles */\<newline>.btn { color: red }\<newline>\<newline>'' @ responsiveUtilities
   \<and> \<not> includes_str
        (combineCssCode ''  '' ''.btn { color: red }'' None ''2024-01-01T00:00:00.000Z'')
        baseStylesHeader"
proof -
  have b: "trim ''  '' = []" and a: "trim ''.btn { color: red }'' \<noteq> []"
    by (simp_all add: trim_def isWhiteSpace_def)
  have n: "\<not> includes_str ''.btn { color: red }'' baseStylesHeader"
    by (simp add: baseStylesHeader_def)
  note t = css_combine_additional_only [OF b a, of None "''2024-01-01T00:00:00.000Z''"]
  from t have eq:
    "combineCssCode ''  '' ''.btn { color: red }'' None ''2024-01-01T00:00:00.000Z''
       = ''/* Additional Styles */\<newline>.btn { color: red }\<newline>\<newline>'' @ responsiveUtilities"
    by (simp add: additionalStylesHeader_def)
  from t n have absent:
    "\<not> includes_str
        (combineCssCode ''  '' ''.btn { color: red }'' None ''2024-01-01T00:00:00.000Z'')
        baseStylesHeader"
    by blast
  from a b n eq absent show ?thesis
    by blast
qed

text \<open>
  The output does contain the text of the base-styles header when the user's
  additional styles carry that comment themselves.
\<close>

theorem css_combine_base_header_counterexample:
  "trim '''' = []
   \<and> trim ''/* Base Styles */\<newline>.btn { color: red }'' \<noteq> []
   \<and> includes_str
        (combineCssCode '''' ''/* Base Styles */\<newline>.btn { color: red }'' None
           ''2024-01-01T00:00:00.000Z'')
        baseStylesHeader"
  by (simp add: combineCssCode_def trim_def isWhiteSpace_def baseStylesHeader_def
      additionalStylesHeader_def)


section \<open>Properties of the stage actions\<close>

subsection \<open>Running event lists\<close>

lemma run_Nil [simp]: "run s [] = s"
  by (simp add: run_def)

lemma run_Cons [simp]: "run s (e # evs) = run (applyEvent s e) evs"
  by (simp add: run_def)

lemma run_append [simp]: "run s (xs @ ys) = run (run s xs) ys"
  by (simp add: run_def)

lemmas basic_actions =
  setStepData_def setStepStatus_def setUIState_def setError_def clearErrors_def
  toggleBlock_def setProgress_def resetAll_def progressMessage_def progressAt_def

lemmas status_simps =
  basic_actions mergeStepStatus_def noStepStatus_def over_def

lemmas sample_simps =
  sampleCollaborators_def sampleState_def sampleBundle_def initialState_def failingFetch_def

lemmas stage_simps =
  connectToFigma_def connectTry_def connectCatch_def connectErrorMessage_def
  autoGenerateSvg_def generateSvgCode_def generateSvgTry_def generateSvgCatch_def
  saveCssCode_def truthy_def trim_def isWhiteSpace_def Let_def
  mergeStepData_def mergeProgress_def noStepData_def noProgress_def

lemma try_catch_split:
  "(case p of (evs, None) \<Rightarrow> evs | (evs, Some t) \<Rightarrow> evs @ h t)
     = fst p @ (case snd p of None \<Rightarrow> [] | Some t \<Rightarrow> h t)"
  by (cases p) (simp split: option.splits)

subsection \<open>Validation of stage 1\<close>

text \<open>
  C1.  When the URL or the token of the state is empty after trimming,
  \<^verbatim>\<open>connectToFigma\<close> dispatches no status update at all, so the status of
  stage 1 (and of every stage) is what it was, in particular not
  \<^verbatim>\<open>loading\<close>; and the non-empty message
  \<^verbatim>\<open>Please provide both Figma URL and Access Token\<close> is stored under the key
  \<^verbatim>\<open>step1\<close>.
\<close>

theorem connect_rejects_empty_input:
  assumes "trim (figmaUrl (stepData state)) = [] \<or> trim (accessToken (stepData state)) = []"
  shows "(\<forall>p. Dispatch (SET_STEP_STATUS p) \<notin> set (connectToFigma c now stateG state))
     \<and> stepStatus (run state (connectToFigma c now stateG state)) = stepStatus state
     \<and> errors (uiState (run state (connectToFigma c now stateG state))) ''step1''
         = Some ''Please provide both Figma URL and Access Token''
     \<and> ''Please provide both Figma URL and Access Token'' \<noteq> []"
  using assms by (auto simp: connectToFigma_def basic_actions)

theorem connect_rejects_empty_input_witness:
  "trim (accessToken (stepData initialState)) = []
   \<and> step1 (stepStatus (run initialState
        (connectToFigma sampleCollaborators ''2024-01-01T00:00:00.000Z'' initialState initialState)))
       = Idle
   \<and> errors (uiState (run initialState
        (connectToFigma sampleCollaborators ''2024-01-01T00:00:00.000Z'' initialState initialState)))
        ''step1'' = Some ''Please provide both Figma URL and Access Token''"
proof -
  have h: "trim (figmaUrl (stepData initialState)) = []
           \<or> trim (accessToken (stepData initialState)) = []"
    by (simp add: initialState_def trim_def)
  show ?thesis
    using connect_rejects_empty_input
      [OF h, of sampleCollaborators "''2024-01-01T00:00:00.000Z''" initialState]
    by (simp add: initialState_def trim_def)
qed

subsection \<open>Error classification of stage 1\<close>

lemma run_connectCatch:
  "errors (uiState (run s (connectCatch t))) ''step1'' = Some (connectErrorMessage t)"
  by (simp add: connectCatch_def basic_actions)

lemma connect_failure_message:
  assumes "trim (figmaUrl (stepData state)) \<noteq> []" "trim (accessToken (stepData state)) \<noteq> []"
    and "snd (connectTry c now stateG (figmaUrl (stepData state)) (accessToken (stepData state)))
           = Some t"
  shows "errors (uiState (run s (connectToFigma c now stateG state))) ''step1''
           = Some (connectErrorMessage t)"
proof -
  obtain evs where
    "connectTry c now stateG (figmaUrl (stepData state)) (accessToken (stepData state))
       = (evs, Some t)"
    using assms(3)
    by (cases "connectTry c now stateG (figmaUrl (stepData state)) (accessToken (stepData state))")
       auto
  then show ?thesis
    using assms(1,2) by (simp add: connectToFigma_def run_connectCatch)
qed

text \<open>
  C6.  Let the input pass validation and let the \<^verbatim>\<open>try\<close> block of
  \<^verbatim>\<open>connectToFigma\<close> end with a thrown \<^verbatim>\<open>Error\<close> of message \<open>m\<close> (thrown by
  a collaborator, or built from the collaborator's validation answer).  If
  \<open>m\<close> contains \<^verbatim>\<open>403\<close>, the message stored under \<^verbatim>\<open>step1\<close> is the
  access-denied message.  If \<open>m\<close> contains \<^verbatim>\<open>429\<close> and none of
  \<^verbatim>\<open>Access denied\<close>, \<^verbatim>\<open>403\<close>, \<^verbatim>\<open>404\<close>, \<^verbatim>\<open>401\<close>, the stored message is the
  rate-limit message: the tests form an if/else-if chain in which \<^verbatim>\<open>429\<close>
  comes last.
\<close>

theorem connect_error_classification:
  assumes "trim (figmaUrl (stepData state)) \<noteq> []" and "trim (accessToken (stepData state)) \<noteq> []"
    and "snd (connectTry c now stateG (figmaUrl (stepData state)) (accessToken (stepData state)))
           = Some (JsError m)"
  shows "(includes_str m ''403'' \<longrightarrow>
            errors (uiState (run state (connectToFigma c now stateG state))) ''step1''
              = Some accessDeniedMessage)
       \<and> (includes_str m ''429'' \<and> \<not> includes_str m ''Access denied'' \<and> \<not> includes_str m ''403''
            \<and> \<not> includes_str m ''404'' \<and> \<not> includes_str m ''401'' \<longrightarrow>
            errors (uiState (run state (connectToFigma c now stateG state))) ''step1''
              = Some rateLimitMessage)"
  using connect_failure_message [OF assms, of state]
  by (simp add: connectErrorMessage_def)

theorem connect_error_classification_witness:
  "includes_str ''Request failed with status code 403'' ''403''
   \<and> errors (uiState (run sampleState
        (connectToFigma (failingFetch ''Request failed with status code 403'')
           ''2024-01-01T00:00:00.000Z'' sampleState sampleState))) ''step1''
       = Some accessDeniedMessage
   \<and> includes_str ''Request failed with status code 429'' ''429''
   \<and> errors (uiState (run sampleState
        (connectToFigma (failingFetch ''Request failed with status code 429'')
           ''2024-01-01T00:00:00.000Z'' sampleState sampleState))) ''step1''
       = Some rateLimitMessage"
proof -
  have url: "trim (figmaUrl (stepData sampleState)) \<noteq> []"
    and token: "trim (accessToken (stepData sampleState)) \<noteq> []"
    by (simp_all add: stage_simps sample_simps status_simps)
  have thrown403:
    "snd (connectTry (failingFetch ''Request failed with status code 403'')
            ''2024-01-01T00:00:00.000Z'' sampleState
            (figmaUrl (stepData sampleState)) (accessToken (stepData sampleState)))
       = Some (JsError ''Request failed with status code 403'')"
    by (simp add: stage_simps sample_simps status_simps)
  have thrown429:
    "snd (connectTry (failingFetch ''Request failed with status code 429'')
            ''2024-01-01T00:00:00.000Z'' sampleState
            (figmaUrl (stepData sampleState)) (accessToken (stepData sampleState)))
       = Some (JsError ''Request failed with status code 429'')"
    by (simp add: stage_simps sample_simps status_simps)
  show ?thesis
    using connect_error_classification [OF url token thrown403]
      connect_error_classification [OF url token thrown429]
    by simp
qed

text \<open>
  The second half as the specification words it (every message containing
  \<^verbatim>\<open>429\<close> gives the rate-limit message) fails when the message also contains
  one of the earlier patterns, for instance inside a file key: the message
  below contains \<^verbatim>\<open>429\<close>, and what is stored is the access-denied message.
\<close>

theorem rate_limit_classification_counterexample:
  "includes_str ''GET /v1/files/aB403xYz failed: 429 Too Many Requests'' ''429''
   \<and> snd (connectTry (failingFetch ''GET /v1/files/aB403xYz failed: 429 Too Many Requests'')
            ''2024-01-01T00:00:00.000Z'' sampleState
            (figmaUrl (stepData sampleState)) (accessToken (stepData sampleState)))
       = Some (JsError ''GET /v1/files/aB403xYz failed: 429 Too Many Requests'')
   \<and> errors (uiState (run sampleState
        (connectToFigma (failingFetch ''GET /v1/files/aB403xYz failed: 429 Too Many Requests'')
           ''2024-01-01T00:00:00.000Z'' sampleState sampleState))) ''step1''
       \<noteq> Some rateLimitMessage
   \<and> errors (uiState (run sampleState
        (connectToFigma (failingFetch ''GET /v1/files/aB403xYz failed: 429 Too Many Requests'')
           ''2024-01-01T00:00:00.000Z'' sampleState sampleState))) ''step1''
       = Some accessDeniedMessage"
  by (simp add: stage_simps sample_simps status_simps accessDeniedMessage_def rateLimitMessage_def)

subsection \<open>Which stage functions an execution enters\<close>

lemma generateSvgTry_invokes:
  "filter isAutoStage2 (fst (generateSvgTry c svg)) = []
   \<and> filter isStage3or4 (fst (generateSvgTry c svg)) = []
   \<and> filter isGenerateSvg (fst (generateSvgTry c svg)) = []"
  by (simp add: generateSvgTry_def basic_actions split: sum.splits)

lemma generateSvgCode_invokes:
  "filter isAutoStage2 (generateSvgCode c state a) = []
   \<and> filter isStage3or4 (generateSvgCode c state a) = []
   \<and> filter isGenerateSvg (generateSvgCode c state a) = [Invoke (GenerateSvgCode a)]"
  by (simp add: generateSvgCode_def generateSvgCatch_def basic_actions Let_def try_catch_split
      generateSvgTry_invokes split: option.splits)

lemma autoGenerateSvg_invokes:
  "filter isAutoStage2 (autoGenerateSvg c stateG b f) = [Invoke (AutoGenerateSvg b f)]
   \<and> filter isStage3or4 (autoGenerateSvg c stateG b f) = []
   \<and> length (filter isGenerateSvg (autoGenerateSvg c stateG b f)) \<le> 1"
  by (simp add: autoGenerateSvg_def basic_actions generateSvgCode_invokes split: sum.splits)

lemma generateSvgTry_figmaData:
  "figmaData (stepData (run s (fst (generateSvgTry c svg)))) = figmaData (stepData s)"
  by (simp add: generateSvgTry_def basic_actions mergeStepData_def noStepData_def over_def
      split: sum.splits)

lemma generateSvgCode_figmaData:
  "figmaData (stepData (run s (generateSvgCode c state a))) = figmaData (stepData s)"
  by (simp add: generateSvgCode_def Let_def basic_actions try_catch_split generateSvgCatch_def
      generateSvgTry_figmaData split: option.splits)

lemma autoGenerateSvg_figmaData:
  "figmaData (stepData (run s (autoGenerateSvg c stateG b f))) = figmaData (stepData s)"
  by (simp add: autoGenerateSvg_def basic_actions generateSvgCode_figmaData
      mergeStepData_def noStepData_def over_def split: sum.splits)

text \<open>The two ways the \<^verbatim>\<open>try\<close> block of stage 1 can end.\<close>

lemma connectTry_cases:
  "(\<exists>t evs. connectTry c now stateG url token = (evs, Some t)
       \<and> filter isAutoStage2 evs = [] \<and> filter isStage3or4 evs = []
       \<and> filter isGenerateSvg evs = [] \<and> filter isStep1Success evs = [])
   \<or> (\<exists>b f. connectTry c now stateG url token =
         ([ progressMessage ''Fetching Figma file data...'',
            progressMessage ''Getting metadata...'',
            setStepData (noStepData\<lparr>p_figmaData := Some (Some b)\<rparr>),
            setStepStatus (noStepStatus\<lparr>p_step1 := Some Success\<rparr>),
            progressMessage ''Connection successful!'' ]
          @ autoGenerateSvg c stateG b f, None))"
  by (simp add: connectTry_def basic_actions Let_def split: sum.splits option.splits) blast

text \<open>The three shapes of an execution of stage 1.\<close>

lemma connectToFigma_cases:
  "connectToFigma c now stateG state
      = [Invoke ConnectToFigma, setError ''step1'' ''Please provide both Figma URL and Access Token'']
   \<or> (\<exists>t evs. connectToFigma c now stateG state =
          [ Invoke ConnectToFigma,
            setStepStatus (noStepStatus\<lparr>p_step1 := Some Loading\<rparr>),
            clearErrors,
            progressAt 1 ''Connecting to Figma...'' ] @ evs @ connectCatch t
        \<and> filter isAutoStage2 evs = [] \<and> filter isStage3or4 evs = []
        \<and> filter isGenerateSvg evs = [] \<and> filter isStep1Success evs = [])
   \<or> (\<exists>b f. connectToFigma c now stateG state =
          [ Invoke ConnectToFigma,
            setStepStatus (noStepStatus\<lparr>p_step1 := Some Loading\<rparr>),
            clearErrors,
            progressAt 1 ''Connecting to Figma...'',
            progressMessage ''Fetching Figma file data...'',
            progressMessage ''Getting metadata...'',
            setStepData (noStepData\<lparr>p_figmaData := Some (Some b)\<rparr>),
            setStepStatus (noStepStatus\<lparr>p_step1 := Some Success\<rparr>),
            progressMessage ''Connection successful!'' ]
          @ autoGenerateSvg c stateG b f)"
proof (cases "trim (figmaUrl (stepData state)) = [] \<or> trim (accessToken (stepData state)) = []")
  case True
  then show ?thesis
    by (simp add: connectToFigma_def Let_def)
next
  case False
  from connectTry_cases [of c now stateG "figmaUrl (stepData state)" "accessToken (stepData state)"]
  show ?thesis
  proof (elim disjE exE conjE)
    fix t evs
    assume tried: "connectTry c now stateG (figmaUrl (stepData state)) (accessToken (stepData state))
                   = (evs, Some t)"
      and quiet: "filter isAutoStage2 evs = []" "filter isStage3or4 evs = []"
        "filter isGenerateSvg evs = []" "filter isStep1Success evs = []"
    from tried False have "connectToFigma c now stateG state =
          [ Invoke ConnectToFigma,
            setStepStatus (noStepStatus\<lparr>p_step1 := Some Loading\<rparr>),
            clearErrors,
            progressAt 1 ''Connecting to Figma...'' ] @ evs @ connectCatch t"
      by (simp add: connectToFigma_def Let_def)
    with quiet show ?thesis by blast
  next
    fix b f
    assume tried: "connectTry c now stateG (figmaUrl (stepData state)) (accessToken (stepData state)) =
         ([ progressMessage ''Fetching Figma file data...'',
            progressMessage ''Getting metadata...'',
            setStepData (noStepData\<lparr>p_figmaData := Some (Some b)\<rparr>),
            setStepStatus (noStepStatus\<lparr>p_step1 := Some Success\<rparr>),
            progressMessage ''Connection successful!'' ]
          @ autoGenerateSvg c stateG b f, None)"
    from tried False have "connectToFigma c now stateG state =
          [ Invoke ConnectToFigma,
            setStepStatus (noStepStatus\<lparr>p_step1 := Some Loading\<rparr>),
            clearErrors,
            progressAt 1 ''Connecting to Figma...'',
            progressMessage ''Fetching Figma file data...'',
            progressMessage ''Getting metadata...'',
            setStepData (noStepData\<lparr>p_figmaData := Some (Some b)\<rparr>),
            setStepStatus (noStepStatus\<lparr>p_step1 := Some Success\<rparr>),
            progressMessage ''Connection successful!'' ]
          @ autoGenerateSvg c stateG b f"
      by (simp add: connectToFigma_def Let_def)
    then show ?thesis by blast
  qed
qed

text \<open>
  C2.  An execution of \<^verbatim>\<open>connectToFigma\<close> that dispatches \<^verbatim>\<open>success\<close> for
  stage 1 enters \<^verbatim>\<open>autoGenerateSvg\<close> exactly once, and the bundle it passes is
  the one this execution has dispatched into \<^verbatim>\<open>figmaData\<close> and that the store
  holds afterwards; an execution that does not reach \<^verbatim>\<open>success\<close> never
  enters it.  \<^verbatim>\<open>generateSvgCode\<close> is entered at most once on the way.  No
  execution of stage 1 or stage 2 enters \<^verbatim>\<open>saveCssCode\<close> or
  \<^verbatim>\<open>generateFinalCode\<close>, and each of these two enters only itself.
\<close>

theorem auto_advance_policy:
  "(filter isStep1Success (connectToFigma c now stateG state) \<noteq> [] \<longrightarrow>
      (\<exists>b f. filter isAutoStage2 (connectToFigma c now stateG state)
                 = [Invoke (AutoGenerateSvg b f)]
             \<and> setStepData (noStepData\<lparr>p_figmaData := Some (Some b)\<rparr>)
                 \<in> set (connectToFigma c now stateG state)
             \<and> figmaData (stepData (run s (connectToFigma c now stateG state))) = Some b))
   \<and> (filter isStep1Success (connectToFigma c now stateG state) = [] \<longrightarrow>
        filter isAutoStage2 (connectToFigma c now stateG state) = [])
   \<and> length (filter isGenerateSvg (connectToFigma c now stateG state)) \<le> 1
   \<and> filter isStage3or4 (connectToFigma c now stateG state) = []
   \<and> filter isStage3or4 (autoGenerateSvg c stateG b0 f0) = []
   \<and> filter isStage3or4 (generateSvgCode c state a) = []
   \<and> filter isStage3or4 (saveCssCode state) = [Invoke SaveCssCode]
   \<and> filter isStage3or4 (generateFinalCode c nowTsx nowCss state) = [Invoke GenerateFinalCode]"
proof -
  let ?tr = "connectToFigma c now stateG state"
  have catch: "filter isAutoStage2 (connectCatch t) = [] \<and> filter isStage3or4 (connectCatch t) = []
      \<and> filter isGenerateSvg (connectCatch t) = [] \<and> filter isStep1Success (connectCatch t) = []" for t
    by (simp add: connectCatch_def basic_actions noStepStatus_def)
  have auto_no_success: "filter isStep1Success (autoGenerateSvg c stateG b f) = []" for b f
    by (simp add: autoGenerateSvg_def generateSvgCode_def generateSvgTry_def generateSvgCatch_def
        basic_actions noStepStatus_def Let_def try_catch_split split: sum.splits option.splits)
  have connect: "(filter isStep1Success ?tr \<noteq> [] \<longrightarrow>
      (\<exists>b f. filter isAutoStage2 ?tr = [Invoke (AutoGenerateSvg b f)]
             \<and> setStepData (noStepData\<lparr>p_figmaData := Some (Some b)\<rparr>) \<in> set ?tr
             \<and> figmaData (stepData (run s ?tr)) = Some b))
   \<and> (filter isStep1Success ?tr = [] \<longrightarrow> filter isAutoStage2 ?tr = [])
   \<and> length (filter isGenerateSvg ?tr) \<le> 1
   \<and> filter isStage3or4 ?tr = []"
    using connectToFigma_cases [of c now stateG state]
  proof (elim disjE exE conjE)
    assume "?tr = [Invoke ConnectToFigma, setError ''step1'' ''Please provide both Figma URL and Access Token'']"
    then show ?thesis by (simp add: basic_actions)
  next
    fix t evs
    assume "?tr = [ Invoke ConnectToFigma,
            setStepStatus (noStepStatus\<lparr>p_step1 := Some Loading\<rparr>),
            clearErrors,
            progressAt 1 ''Connecting to Figma...'' ] @ evs @ connectCatch t"
      and "filter isAutoStage2 evs = []" "filter isStage3or4 evs = []"
      "filter isGenerateSvg evs = []" "filter isStep1Success evs = []"
    then show ?thesis by (simp add: catch basic_actions noStepStatus_def)
  next
    fix b f
    assume tr: "?tr = [ Invoke ConnectToFigma,
            setStepStatus (noStepStatus\<lparr>p_step1 := Some Loading\<rparr>),
            clearErrors,
            progressAt 1 ''Connecting to Figma...'',
            progressMessage ''Fetching Figma file data...'',
            progressMessage ''Getting metadata...'',
            setStepData (noStepData\<lparr>p_figmaData := Some (Some b)\<rparr>),
            setStepStatus (noStepStatus\<lparr>p_step1 := Some Success\<rparr>),
            progressMessage ''Connection successful!'' ]
          @ autoGenerateSvg c stateG b f"
    have "filter isAutoStage2 ?tr = [Invoke (AutoGenerateSvg b f)]"
      by (simp add: tr basic_actions autoGenerateSvg_invokes)
    moreover have "setStepData (noStepData\<lparr>p_figmaData := Some (Some b)\<rparr>) \<in> set ?tr"
      by (simp add: tr)
    moreover have "figmaData (stepData (run s ?tr)) = Some b"
      by (simp add: tr basic_actions autoGenerateSvg_figmaData mergeStepData_def noStepData_def over_def)
    moreover have "filter isStep1Success ?tr \<noteq> []"
      by (simp add: tr basic_actions noStepStatus_def)
    moreover have "length (filter isGenerateSvg ?tr) \<le> 1"
      using autoGenerateSvg_invokes [of c stateG b f] by (simp add: tr basic_actions)
    moreover have "filter isStage3or4 ?tr = []"
      by (simp add: tr basic_actions autoGenerateSvg_invokes)
    ultimately show ?thesis by blast
  qed
  have final: "filter isStage3or4 (generateFinalCode c nowTsx nowCss state) = [Invoke GenerateFinalCode]"
  proof -
    have m: "filter isStage3or4 (map progressMessage xs) = []" for xs
      by (induction xs) (simp_all add: basic_actions)
    have "filter isStage3or4 (fst (generateFinalTry c nowTsx nowCss state)) = []"
      by (simp add: generateFinalTry_def Let_def m basic_actions split: prod.splits sum.splits)
    then show ?thesis
      by (simp add: generateFinalCode_def generateFinalCatch_def try_catch_split basic_actions
          split: option.splits)
  qed
  have save: "filter isStage3or4 (saveCssCode state) = [Invoke SaveCssCode]"
    by (simp add: saveCssCode_def basic_actions)
  show ?thesis
    using connect final save autoGenerateSvg_invokes [of c stateG b0 f0]
      generateSvgCode_invokes [of c state a]
    by simp
qed

theorem auto_advance_policy_witness:
  "filter isStep1Success
      (connectToFigma sampleCollaborators ''2024-01-01T00:00:00.000Z'' sampleState sampleState)
     \<noteq> []
   \<and> filter isAutoStage2
        (connectToFigma sampleCollaborators ''2024-01-01T00:00:00.000Z'' sampleState sampleState)
       = [Invoke (AutoGenerateSvg sampleBundle ''FILE123'')]
   \<and> figmaData (stepData (run sampleState
        (connectToFigma sampleCollaborators ''2024-01-01T00:00:00.000Z'' sampleState sampleState)))
       = Some sampleBundle
   \<and> filter isStep1Success
        (connectToFigma (failingFetch ''Request failed with status code 403'')
           ''2024-01-01T00:00:00.000Z'' sampleState sampleState) = []
   \<and> filter isAutoStage2
        (connectToFigma (failingFetch ''Request failed with status code 403'')
           ''2024-01-01T00:00:00.000Z'' sampleState sampleState) = []"
  using auto_advance_policy
      [of sampleCollaborators "''2024-01-01T00:00:00.000Z''" sampleState sampleState sampleState]
    auto_advance_policy
      [of "failingFetch ''Request failed with status code 403''" "''2024-01-01T00:00:00.000Z''"
          sampleState sampleState sampleState]
  by (simp add: stage_simps sample_simps status_simps)

subsection \<open>Status transitions\<close>

lemma settledMove_refl [simp]: "settledMove a a"
  by (cases a) simp_all










lemma allStages_settled_refl [simp]: "allStages settledMove t t"
  by (simp add: allStages_def)







end
